theory Spec2Isabelle
  imports Complex_Main "HOL-Library.Log_Nat" "HOL-Library.Sublist"
begin

section \<open>JavaScript values\<close>

text \<open>
  A JavaScript string is a sequence of UTF-16 code units. The labels of this program are
  Chinese, so strings are lists of code units (numbers below 65536), not byte strings;
  \<open>asc\<close> turns an ASCII literal into one.
\<close>

type_synonym jstring = "nat list"

definition asc :: "string \<Rightarrow> jstring" where
  "asc s = map of_char s"

text \<open>
  A Number is a binary64 value: a finite rational, NaN or an infinity. The two zeros are
  not told apart: they differ only as divisors, and this program divides only by values
  it has tested to be truthy, that is non-zero.
\<close>

datatype jsnum = Fin rat | NaN | PosInf | NegInf

text \<open>The values a spreadsheet cell, or an argument of \<open>parseNumber\<close>, can hold.\<close>

datatype jsval = JNull | JUndefined | JBool bool | JNum jsnum | JStr jstring

subsection \<open>Rounding to binary64\<close>

definition pow2 :: "int \<Rightarrow> rat" where
  "pow2 k = (if 0 \<le> k then 2 ^ nat k else 1 / 2 ^ nat (- k))"

definition pow10 :: "int \<Rightarrow> rat" where
  "pow10 k = (if 0 \<le> k then 10 ^ nat k else 1 / 10 ^ nat (- k))"

text \<open>\<open>flog2 a\<close> is the integer \<open>k\<close> with \<open>2\<^sup>k \<le> a < 2\<^sup>k\<^sup>+\<^sup>1\<close>, for a positive \<open>a\<close>.\<close>

definition flog2 :: "rat \<Rightarrow> int" where
  "flog2 a = (if 1 \<le> a then bitlen \<lfloor>a\<rfloor> - 1 else - bitlen (- \<lfloor>- (1 / a)\<rfloor> - 1))"

definition round_half_even :: "rat \<Rightarrow> int" where
  "round_half_even q = (let f = \<lfloor>q\<rfloor>; d = q - of_int f in
     if d < 1 / 2 then f else if 1 / 2 < d then f + 1 else if even f then f else f + 1)"

text \<open>
  The Number nearest to a mathematical value (round to nearest, ties to even; 53 bits of
  precision, least exponent -1022, overflow to an infinity), as every arithmetic operation
  and every numeric literal of the language produces it.
\<close>

definition round64 :: "rat \<Rightarrow> jsnum" where
  "round64 x = (if x = 0 then Fin 0 else
     let a = \<bar>x\<bar>;
         e = max (flog2 a) (- 1022);
         u = pow2 (e - 52);
         v = of_int (round_half_even (a / u)) * u
     in if pow2 1024 \<le> v then (if 0 < x then PosInf else NegInf)
        else Fin (if 0 < x then v else - v))"

subsection \<open>Truthiness\<close>

definition truthy_num :: "jsnum \<Rightarrow> bool" where
  "truthy_num n = (case n of Fin r \<Rightarrow> r \<noteq> 0 | NaN \<Rightarrow> False | PosInf \<Rightarrow> True | NegInf \<Rightarrow> True)"

definition truthy :: "jsval \<Rightarrow> bool" where
  "truthy v = (case v of JNull \<Rightarrow> False | JUndefined \<Rightarrow> False | JBool b \<Rightarrow> b
     | JNum n \<Rightarrow> truthy_num n | JStr s \<Rightarrow> s \<noteq> [])"

subsection \<open>Strings\<close>

text \<open>
  The characters of the regular-expression class \<open>\s\<close>, which are also the ones
  \<open>trim\<close> and \<open>parseFloat\<close> strip: WhiteSpace and LineTerminator.
\<close>

definition is_space :: "nat \<Rightarrow> bool" where
  "is_space c = (c \<in> {9, 10, 11, 12, 13, 32, 160, 5760, 8232, 8233, 8239, 8287, 12288, 65279}
     \<or> (8192 \<le> c \<and> c \<le> 8202))"

definition trim :: "jstring \<Rightarrow> jstring" where
  "trim s = rev (dropWhile is_space (rev (dropWhile is_space s)))"

definition starts_with :: "jstring \<Rightarrow> jstring \<Rightarrow> bool" where
  "starts_with s t = (take (length t) s = t)"

text \<open>\<open>s.includes(t)\<close>: \<open>t\<close> occurs in \<open>s\<close> as a contiguous run.\<close>

fun includes_str :: "jstring \<Rightarrow> jstring \<Rightarrow> bool" where
  "includes_str [] t = (t = [])"
| "includes_str (c # cs) t = (starts_with (c # cs) t \<or> includes_str cs t)"

section \<open>The Numeric Normalizer\<close>

subsection \<open>parseFloat\<close>

definition is_digit :: "nat \<Rightarrow> bool" where
  "is_digit c = (48 \<le> c \<and> c \<le> 57)"

definition digits_val :: "jstring \<Rightarrow> nat" where
  "digits_val ds = foldl (\<lambda>a c. 10 * a + (c - 48)) 0 ds"

text \<open>
  The exponent of an ExponentPart at the head of the string: \<open>e\<close> or \<open>E\<close>, an optional
  sign, and at least one digit. Anything else is no exponent part, and leaves the
  literal that stands before it as it is.
\<close>

definition exponent_part :: "jstring \<Rightarrow> int" where
  "exponent_part s = (case s of
       [] \<Rightarrow> 0
     | c # r \<Rightarrow>
         if c = 101 \<or> c = 69 then
           (case r of
              [] \<Rightarrow> 0
            | d # r' \<Rightarrow>
                if d = 43 then (if takeWhile is_digit r' = [] then 0
                                else int (digits_val (takeWhile is_digit r')))
                else if d = 45 then (if takeWhile is_digit r' = [] then 0
                                     else - int (digits_val (takeWhile is_digit r')))
                else if takeWhile is_digit r = [] then 0
                else int (digits_val (takeWhile is_digit r)))
         else 0)"

text \<open>
  The mathematical value of the longest prefix that is a StrUnsignedDecimalLiteral other
  than \<open>Infinity\<close>: digits, an optional fraction and an optional exponent, with a digit
  on at least one side of the point. None when the string has no such prefix.
\<close>

definition unsigned_literal :: "jstring \<Rightarrow> rat option" where
  "unsigned_literal s = (let ip = takeWhile is_digit s; r1 = dropWhile is_digit s in
     if r1 \<noteq> [] \<and> hd r1 = 46 then
       (let fp = takeWhile is_digit (tl r1); r2 = dropWhile is_digit (tl r1) in
        if ip = [] \<and> fp = [] then None
        else Some (of_nat (digits_val (ip @ fp)) * pow10 (exponent_part r2 - int (length fp))))
     else if ip = [] then None
     else Some (of_nat (digits_val ip) * pow10 (exponent_part r1)))"

definition parseFloat :: "jstring \<Rightarrow> jsnum" where
  "parseFloat s = (let t = dropWhile is_space s;
       neg = (t \<noteq> [] \<and> hd t = 45);
       u = (if t \<noteq> [] \<and> (hd t = 45 \<or> hd t = 43) then tl t else t)
     in if starts_with u [73, 110, 102, 105, 110, 105, 116, 121]
        then (if neg then NegInf else PosInf)
        else (case unsigned_literal u of
                None \<Rightarrow> NaN
              | Some m \<Rightarrow> round64 (if neg then - m else m)))"

subsection \<open>parseNumber\<close>

text \<open>
  The class \<open>[,\<dots>\s\<dots>]\<close> of \<open>parseNumber\<close>: the ASCII comma, the full-width comma
  U+FF0C, white space, and the glyphs U+5143, U+4E07, U+5343 and U+767E.
\<close>

definition is_formatting :: "nat \<Rightarrow> bool" where
  "is_formatting c = (c = 44 \<or> c = 65292 \<or> is_space c
     \<or> c = 20803 \<or> c = 19975 \<or> c = 21315 \<or> c = 30334)"

text \<open>The result is \<open>None\<close> where the source returns \<open>null\<close>.\<close>

definition parseNumber :: "jsval \<Rightarrow> jsnum option" where
  "parseNumber v = (case v of
       JNull \<Rightarrow> None
     | JUndefined \<Rightarrow> None
     | JNum n \<Rightarrow> if n \<noteq> NaN then Some n else None
     | JStr s \<Rightarrow>
         if s = [] then None
         else (let cleaned = filter (\<lambda>c. \<not> is_formatting c) s;
                   num = parseFloat cleaned
               in if num \<noteq> NaN then Some num else None)
     | JBool b \<Rightarrow> None)"

section \<open>Number arithmetic and formatting\<close>

definition num_sub :: "jsnum \<Rightarrow> jsnum \<Rightarrow> jsnum" where
  "num_sub a b = (case (a, b) of
       (NaN, _) \<Rightarrow> NaN
     | (_, NaN) \<Rightarrow> NaN
     | (Fin x, Fin y) \<Rightarrow> round64 (x - y)
     | (Fin x, PosInf) \<Rightarrow> NegInf
     | (Fin x, NegInf) \<Rightarrow> PosInf
     | (PosInf, PosInf) \<Rightarrow> NaN
     | (PosInf, _) \<Rightarrow> PosInf
     | (NegInf, NegInf) \<Rightarrow> NaN
     | (NegInf, _) \<Rightarrow> NegInf)"

text \<open>The sign of a product or quotient of two numbers that are not NaN.\<close>

definition is_neg :: "jsnum \<Rightarrow> bool" where
  "is_neg a = (case a of Fin x \<Rightarrow> x < 0 | NegInf \<Rightarrow> True | _ \<Rightarrow> False)"

definition signed_inf :: "jsnum \<Rightarrow> jsnum \<Rightarrow> jsnum" where
  "signed_inf a b = (if is_neg a = is_neg b then PosInf else NegInf)"

definition num_mul :: "jsnum \<Rightarrow> jsnum \<Rightarrow> jsnum" where
  "num_mul a b = (case (a, b) of
       (NaN, _) \<Rightarrow> NaN
     | (_, NaN) \<Rightarrow> NaN
     | (Fin x, Fin y) \<Rightarrow> round64 (x * y)
     | (Fin x, _) \<Rightarrow> if x = 0 then NaN else signed_inf a b
     | (_, Fin y) \<Rightarrow> if y = 0 then NaN else signed_inf a b
     | (_, _) \<Rightarrow> signed_inf a b)"

definition num_div :: "jsnum \<Rightarrow> jsnum \<Rightarrow> jsnum" where
  "num_div a b = (case (a, b) of
       (NaN, _) \<Rightarrow> NaN
     | (_, NaN) \<Rightarrow> NaN
     | (Fin x, Fin y) \<Rightarrow>
         if y = 0 then (if x = 0 then NaN else signed_inf a b) else round64 (x / y)
     | (Fin x, _) \<Rightarrow> Fin 0
     | (_, Fin y) \<Rightarrow> signed_inf a b
     | (_, _) \<Rightarrow> NaN)"

text \<open>The decimal digits of a natural number.\<close>

fun dec_digits :: "nat \<Rightarrow> jstring" where
  "dec_digits n = (if n < 10 then [48 + n] else dec_digits (n div 10) @ [48 + n mod 10])"

declare dec_digits.simps [simp del]

text \<open>
  \<open>Number::toString\<close>. The digits it gives a finite number are the shortest ones that
  read back as the same binary64 value; no property below depends on them, so they are
  the parameter \<open>ns\<close> of the functions that print a number.
\<close>

definition number_to_string :: "(rat \<Rightarrow> jstring) \<Rightarrow> jsnum \<Rightarrow> jstring" where
  "number_to_string ns n = (case n of
       Fin r \<Rightarrow> ns r
     | NaN \<Rightarrow> [78, 97, 78]
     | PosInf \<Rightarrow> [73, 110, 102, 105, 110, 105, 116, 121]
     | NegInf \<Rightarrow> [45, 73, 110, 102, 105, 110, 105, 116, 121])"

definition to_string :: "(rat \<Rightarrow> jstring) \<Rightarrow> jsval \<Rightarrow> jstring" where
  "to_string ns v = (case v of
       JNull \<Rightarrow> [110, 117, 108, 108]
     | JUndefined \<Rightarrow> [117, 110, 100, 101, 102, 105, 110, 101, 100]
     | JBool b \<Rightarrow> if b then [116, 114, 117, 101] else [102, 97, 108, 115, 101]
     | JNum n \<Rightarrow> number_to_string ns n
     | JStr s \<Rightarrow> s)"

text \<open>
  \<open>x.toFixed(2)\<close>: a number that is not finite prints as \<open>Number::toString\<close> prints
  it, and so does one of magnitude \<open>10\<^sup>2\<^sup>1\<close> or more; any other is rounded to the
  nearest hundredth, the larger one on a tie, and printed with two decimals.
\<close>

definition fixed_digits :: "rat \<Rightarrow> jstring" where
  "fixed_digits x = (let n = nat \<lfloor>x * 100 + 1 / 2\<rfloor> in
     dec_digits (n div 100) @ [46, 48 + (n mod 100) div 10, 48 + n mod 10])"

definition toFixed2 :: "(rat \<Rightarrow> jstring) \<Rightarrow> jsnum \<Rightarrow> jstring" where
  "toFixed2 ns n = (case n of
       Fin x \<Rightarrow>
         if 10 ^ 21 \<le> \<bar>x\<bar> then ns x
         else if x < 0 then 45 # fixed_digits (- x)
         else fixed_digits x
     | _ \<Rightarrow> number_to_string ns n)"

section \<open>The Spreadsheet Fact Extractor\<close>

text \<open>
  A cell grid is the array of rows that the sheet reader returns; a row is an array of
  cell values, and the code also allows for a row that is null or undefined (\<open>None\<close>).
\<close>

type_synonym row = "jsval list option"
type_synonym grid = "row list"

text \<open>
  The record that \<open>extractFinancialData\<close> fills. The entries of \<open>result.balanceSheet\<close>
  are numbers, except the four ratios \<open>debtRatio\<close>, \<open>currentRatio\<close>, \<open>quickRatio\<close> and
  \<open>roe\<close>, which are the strings \<open>toFixed\<close> returns and which the program only writes
  here; they are the map \<open>ratios\<close>.
\<close>

record fin_result =
  balanceSheet :: "string \<rightharpoonup> jsnum"
  incomeStatement :: "string \<rightharpoonup> jsnum"
  ratios :: "string \<rightharpoonup> jstring"

text \<open>The two label dictionaries, in the order of the source (the order of \<open>Object.entries\<close>).\<close>

definition balanceSheetTerms :: "(jstring \<times> string) list" where
  "balanceSheetTerms =
    [([36164, 20135, 24635, 35745], ''totalAssets''),
     ([36164, 20135, 24635, 39069], ''totalAssets''),
     ([36164, 20135, 21512, 35745], ''totalAssets''),
     ([36164, 20135, 24635, 25968], ''totalAssets''),
     ([24635, 36164, 20135], ''totalAssets''),
     ([36127, 20538, 24635, 35745], ''totalLiabilities''),
     ([36127, 20538, 24635, 39069], ''totalLiabilities''),
     ([36127, 20538, 21512, 35745], ''totalLiabilities''),
     ([24635, 36127, 20538], ''totalLiabilities''),
     ([25152, 26377, 32773, 26435, 30410, 21512, 35745], ''ownerEquity''),
     ([25152, 26377, 32773, 26435, 30410], ''ownerEquity''),
     ([32929, 19996, 26435, 30410, 21512, 35745], ''ownerEquity''),
     ([32929, 19996, 26435, 30410], ''ownerEquity''),
     ([20928, 36164, 20135], ''ownerEquity''),
     ([23454, 25910, 36164, 26412], ''paidInCapital''),
     ([27969, 21160, 36164, 20135, 21512, 35745], ''currentAssets''),
     ([27969, 21160, 36164, 20135], ''currentAssets''),
     ([27969, 21160, 36127, 20538, 21512, 35745], ''currentLiabilities''),
     ([27969, 21160, 36127, 20538], ''currentLiabilities''),
     ([23384, 36135], ''inventory''),
     ([24212, 25910, 36134, 27454], ''accountsReceivable''),
     ([36135, 24065, 36164, 37329], ''cashAndEquivalents'')]"

definition incomeTerms :: "(jstring \<times> string) list" where
  "incomeTerms =
    [([33829, 19994, 25910, 20837], ''revenue''),
     ([20027, 33829, 19994, 21153, 25910, 20837], ''revenue''),
     ([33829, 19994, 24635, 25910, 20837], ''revenue''),
     ([38144, 21806, 25910, 20837], ''revenue''),
     ([20928, 21033, 28070], ''netProfit''),
     ([21033, 28070, 24635, 39069], ''totalProfit''),
     ([33829, 19994, 21033, 28070], ''operatingProfit''),
     ([33829, 19994, 25104, 26412], ''operatingCost''),
     ([20027, 33829, 19994, 21153, 25104, 26412], ''operatingCost''),
     ([38144, 21806, 36153, 29992], ''sellingExpenses''),
     ([31649, 29702, 36153, 29992], ''adminExpenses''),
     ([36130, 21153, 36153, 29992], ''financialExpenses'')]"

text \<open>\<open>!m[key]\<close> is false: the key holds a truthy value.\<close>

definition is_set :: "(string \<rightharpoonup> jsnum) \<Rightarrow> string \<Rightarrow> bool" where
  "is_set m k = (case m k of None \<Rightarrow> False | Some n \<Rightarrow> truthy_num n)"

text \<open>Reading a key as a number: a key that is absent reads as undefined, which is NaN.\<close>

definition num_at :: "(string \<rightharpoonup> jsnum) \<Rightarrow> string \<Rightarrow> jsnum" where
  "num_at m k = (case m k of None \<Rightarrow> NaN | Some n \<Rightarrow> n)"

text \<open>\<open>String(row[col] || '').trim()\<close>\<close>

definition cell_text :: "(rat \<Rightarrow> jstring) \<Rightarrow> jsval \<Rightarrow> jstring" where
  "cell_text ns v = trim (to_string ns (if truthy v then v else JStr []))"

text \<open>
  The two inner loops over \<open>j\<close>: the first cell that \<open>parseNumber\<close> turns into a number
  other than null and zero, where the loop assigns and breaks.
\<close>

fun first_value :: "jsval list \<Rightarrow> jsnum option" where
  "first_value [] = None"
| "first_value (c # cs) = (case parseNumber c of
       None \<Rightarrow> first_value cs
     | Some v \<Rightarrow> if v \<noteq> Fin 0 then Some v else first_value cs)"

text \<open>
  The body of the \<open>if\<close> on a matching term: look to the right in the same row, and if
  the key is still not set and there is a next row, look through the next row.
\<close>

definition lookup_value :: "grid \<Rightarrow> nat \<Rightarrow> jsval list \<Rightarrow> nat \<Rightarrow> (string \<rightharpoonup> jsnum) \<Rightarrow> string
    \<Rightarrow> (string \<rightharpoonup> jsnum)" where
  "lookup_value sheetData i row col m key =
     (let m1 = (case first_value (drop (col + 1) row) of None \<Rightarrow> m | Some v \<Rightarrow> m(key \<mapsto> v))
      in if \<not> is_set m1 key \<and> i + 1 < length sheetData then
           (case sheetData ! (i + 1) of
              None \<Rightarrow> m1
            | Some nextRow \<Rightarrow>
                (case first_value nextRow of None \<Rightarrow> m1 | Some v \<Rightarrow> m1(key \<mapsto> v)))
         else m1)"

definition term_step :: "grid \<Rightarrow> nat \<Rightarrow> jsval list \<Rightarrow> nat \<Rightarrow> jstring \<Rightarrow> (string \<rightharpoonup> jsnum)
    \<Rightarrow> jstring \<times> string \<Rightarrow> (string \<rightharpoonup> jsnum)" where
  "term_step sheetData i row col cellValue m tk = (case tk of (term, key) \<Rightarrow>
     if includes_str cellValue term \<and> \<not> is_set m key
     then lookup_value sheetData i row col m key else m)"

definition cell_step :: "(rat \<Rightarrow> jstring) \<Rightarrow> grid \<Rightarrow> nat \<Rightarrow> jsval list \<Rightarrow> fin_result \<Rightarrow> nat
    \<Rightarrow> fin_result" where
  "cell_step ns sheetData i row r col =
     (let cellValue = cell_text ns (row ! col) in
      if cellValue = [] then r
      else r\<lparr>balanceSheet :=
                 foldl (term_step sheetData i row col cellValue) (balanceSheet r) balanceSheetTerms,
               incomeStatement :=
                 foldl (term_step sheetData i row col cellValue) (incomeStatement r) incomeTerms\<rparr>)"

definition row_step :: "(rat \<Rightarrow> jstring) \<Rightarrow> grid \<Rightarrow> fin_result \<Rightarrow> nat \<Rightarrow> fin_result" where
  "row_step ns sheetData r i = (case sheetData ! i of
       None \<Rightarrow> r
     | Some row \<Rightarrow> if row = [] then r
                   else foldl (cell_step ns sheetData i row) r [0 ..< length row])"

text \<open>The loop over all cells (lines 226 to 291 of the source).\<close>

definition scan_cells :: "(rat \<Rightarrow> jstring) \<Rightarrow> grid \<Rightarrow> fin_result \<Rightarrow> fin_result" where
  "scan_cells ns sheetData r = foldl (row_step ns sheetData) r [0 ..< length sheetData]"

text \<open>The derived metrics, in the order of the source.\<close>

definition derive_debtRatio :: "(rat \<Rightarrow> jstring) \<Rightarrow> fin_result \<Rightarrow> fin_result" where
  "derive_debtRatio ns r = (let b = balanceSheet r in
     if is_set b ''totalAssets'' \<and> is_set b ''totalLiabilities''
     then r\<lparr>ratios := (ratios r)(''debtRatio'' \<mapsto>
            toFixed2 ns (num_mul (num_div (num_at b ''totalLiabilities'') (num_at b ''totalAssets''))
                                 (Fin 100)))\<rparr>
     else r)"

definition derive_liquidity :: "(rat \<Rightarrow> jstring) \<Rightarrow> fin_result \<Rightarrow> fin_result" where
  "derive_liquidity ns r = (let b = balanceSheet r in
     if is_set b ''currentAssets'' \<and> is_set b ''currentLiabilities''
     then (let quickAssets = num_sub (num_at b ''currentAssets'')
                 (if is_set b ''inventory'' then num_at b ''inventory'' else Fin 0)
           in r\<lparr>ratios := (ratios r)
                 (''currentRatio'' \<mapsto>
                    toFixed2 ns (num_div (num_at b ''currentAssets'') (num_at b ''currentLiabilities'')),
                  ''quickRatio'' \<mapsto>
                    toFixed2 ns (num_div quickAssets (num_at b ''currentLiabilities'')))\<rparr>)
     else r)"

definition derive_roe :: "(rat \<Rightarrow> jstring) \<Rightarrow> fin_result \<Rightarrow> fin_result" where
  "derive_roe ns r =
     (if is_set (incomeStatement r) ''netProfit'' \<and> is_set (balanceSheet r) ''ownerEquity''
      then r\<lparr>ratios := (ratios r)(''roe'' \<mapsto>
             toFixed2 ns (num_mul (num_div (num_at (incomeStatement r) ''netProfit'')
                                           (num_at (balanceSheet r) ''ownerEquity''))
                                  (Fin 100)))\<rparr>
      else r)"

definition derive_ownerEquity :: "fin_result \<Rightarrow> fin_result" where
  "derive_ownerEquity r = (let b = balanceSheet r in
     if is_set b ''totalAssets'' \<and> is_set b ''totalLiabilities'' \<and> \<not> is_set b ''ownerEquity''
     then r\<lparr>balanceSheet := b(''ownerEquity'' \<mapsto>
            num_sub (num_at b ''totalAssets'') (num_at b ''totalLiabilities''))\<rparr>
     else r)"

definition extractFinancialData :: "(rat \<Rightarrow> jstring) \<Rightarrow> grid \<Rightarrow> fin_result \<Rightarrow> fin_result" where
  "extractFinancialData ns sheetData result =
     derive_ownerEquity (derive_roe ns (derive_liquidity ns (derive_debtRatio ns
       (scan_cells ns sheetData result))))"

text \<open>The record \<open>parseExcelFile\<close> starts a workbook with.\<close>

definition new_result :: fin_result where
  "new_result = \<lparr>balanceSheet = Map.empty, incomeStatement = Map.empty, ratios = Map.empty\<rparr>"

subsection \<open>The specification of the label scan\<close>

text \<open>
  The first entry of a list of optional values that holds a value.
\<close>

fun first_found :: "'a option list \<Rightarrow> 'a option" where
  "first_found [] = None"
| "first_found (None # xs) = first_found xs"
| "first_found (Some v # xs) = Some v"

text \<open>
  A cell that \<open>parseNumber\<close> reads as a number other than zero.
\<close>

definition is_nonzero_number :: "jsval \<Rightarrow> bool" where
  "is_nonzero_number c = (parseNumber c \<noteq> None \<and> parseNumber c \<noteq> Some (Fin 0))"

text \<open>
  The number of the first such cell of a list of cells.
\<close>

definition spec_first_number :: "jsval list \<Rightarrow> jsnum option" where
  "spec_first_number cells = (case List.find is_nonzero_number cells of
       None \<Rightarrow> None | Some c \<Rightarrow> parseNumber c)"

text \<open>
  The cells of row \<open>i\<close>; a missing row has none.
\<close>

definition cells_at :: "grid \<Rightarrow> nat \<Rightarrow> jsval list" where
  "cells_at g i = (if i < length g then (case g ! i of None \<Rightarrow> [] | Some cs \<Rightarrow> cs) else [])"

text \<open>
  The search that starts at a label in row \<open>i\<close> and column \<open>col\<close>: the first number to the
  right of the label in its row, and if there is none the first number of the next row.
\<close>

definition spec_search :: "grid \<Rightarrow> nat \<Rightarrow> nat \<Rightarrow> jsnum option" where
  "spec_search g i col = (case spec_first_number (drop (Suc col) (cells_at g i)) of
       Some v \<Rightarrow> Some v
     | None \<Rightarrow> spec_first_number (cells_at g (Suc i)))"

text \<open>
  The searches for the key \<open>k\<close>, in the order of the scan: row by row, cell by cell, and
  for each cell the terms of the table whose label occurs in the text of the cell.
\<close>

definition spec_hits :: "(rat \<Rightarrow> jstring) \<Rightarrow> (jstring \<times> string) list \<Rightarrow> grid \<Rightarrow> string
    \<Rightarrow> jsnum option list" where
  "spec_hits ns terms g k =
     [spec_search g i col.
        i \<leftarrow> [0 ..< length g], col \<leftarrow> [0 ..< length (cells_at g i)],
        (term, key) \<leftarrow> terms, key = k \<and> includes_str (cell_text ns (cells_at g i ! col)) term]"

text \<open>
  One event of the scan: a key and the result of a search. It sets the key unless the key
  is set already or the search found nothing.
\<close>

definition assign :: "(string \<rightharpoonup> jsnum) \<Rightarrow> string \<times> jsnum option \<Rightarrow> (string \<rightharpoonup> jsnum)" where
  "assign m e = (case e of (k, S) \<Rightarrow>
     if is_set m k then m else (case S of None \<Rightarrow> m | Some v \<Rightarrow> m(k \<mapsto> v)))"

text \<open>
  The events of one cell, of one row and of the whole grid, in the order of the loops.
\<close>

definition cell_events :: "(rat \<Rightarrow> jstring) \<Rightarrow> (jstring \<times> string) list \<Rightarrow> grid \<Rightarrow> nat \<Rightarrow> nat
    \<Rightarrow> (string \<times> jsnum option) list" where
  "cell_events ns terms g i col =
     map (\<lambda>(term, key). (key, if includes_str (cell_text ns (cells_at g i ! col)) term
                                then spec_search g i col else None)) terms"

definition row_events :: "(rat \<Rightarrow> jstring) \<Rightarrow> (jstring \<times> string) list \<Rightarrow> grid \<Rightarrow> nat
    \<Rightarrow> (string \<times> jsnum option) list" where
  "row_events ns terms g i = concat (map (cell_events ns terms g i) [0 ..< length (cells_at g i)])"

definition grid_events :: "(rat \<Rightarrow> jstring) \<Rightarrow> (jstring \<times> string) list \<Rightarrow> grid
    \<Rightarrow> (string \<times> jsnum option) list" where
  "grid_events ns terms g = concat (map (row_events ns terms g) [0 ..< length g])"

text \<open>
  The results of the events for the key \<open>k\<close>.
\<close>

definition events_of :: "string \<Rightarrow> (string \<times> jsnum option) list \<Rightarrow> jsnum option list" where
  "events_of k evs = [S. (k', S) \<leftarrow> evs, k' = k]"

text \<open>
  The ratios of a record were written by the extractor: a ratio that is present has its
  base metrics set.
\<close>

definition ratio_inv :: "fin_result \<Rightarrow> bool" where
  "ratio_inv r =
     ((ratios r ''debtRatio'' \<noteq> None \<longrightarrow>
         is_set (balanceSheet r) ''totalAssets'' \<and> is_set (balanceSheet r) ''totalLiabilities'')
    \<and> (ratios r ''currentRatio'' \<noteq> None \<longrightarrow>
         is_set (balanceSheet r) ''currentAssets'' \<and> is_set (balanceSheet r) ''currentLiabilities'')
    \<and> (ratios r ''quickRatio'' \<noteq> None \<longrightarrow>
         is_set (balanceSheet r) ''currentAssets'' \<and> is_set (balanceSheet r) ''currentLiabilities'')
    \<and> (ratios r ''roe'' \<noteq> None \<longrightarrow>
         is_set (incomeStatement r) ''netProfit'' \<and> is_set (balanceSheet r) ''ownerEquity''))"

section \<open>Regular expressions\<close>

text \<open>
  The patterns of this program use characters and character classes, sequence,
  alternation, greedy and lazy repetition and capture groups; none has a back reference,
  a look-around or a group under a repetition. A pattern is matched as the language
  defines it, by backtracking: \<open>rx_match r (s, c)\<close> lists, in the order in which
  backtracking tries them, the ways \<open>r\<close> can match at the head of \<open>s\<close>, each as what is
  left of \<open>s\<close> and the captures \<open>c\<close> extended. The match of a whole pattern at a position
  is the first of the list. An iteration of a repetition that consumes nothing is rejected,
  as RepeatMatcher does.
\<close>

type_synonym caps = "nat \<rightharpoonup> jstring"

datatype rx =
    Eps
  | Chr "nat \<Rightarrow> bool"
  | Seq rx rx
  | Alt rx rx
  | Star rx
  | Lazy rx
  | Grp nat rx

fun rx_match :: "rx \<Rightarrow> jstring \<times> caps \<Rightarrow> (jstring \<times> caps) list" where
  "rx_match Eps st = [st]"
| "rx_match (Chr P) (s, c) = (case s of [] \<Rightarrow> [] | x # xs \<Rightarrow> if P x then [(xs, c)] else [])"
| "rx_match (Seq a b) st = concat (map (rx_match b) (rx_match a st))"
| "rx_match (Alt a b) st = rx_match a st @ rx_match b st"
| "rx_match (Star r) (s, c) =
     concat (map (\<lambda>st'. if length (fst st') < length s then rx_match (Star r) st' else [])
                 (rx_match r (s, c))) @ [(s, c)]"
| "rx_match (Lazy r) (s, c) =
     (s, c) # concat (map (\<lambda>st'. if length (fst st') < length s then rx_match (Lazy r) st' else [])
                          (rx_match r (s, c)))"
| "rx_match (Grp n r) (s, c) =
     map (\<lambda>(s', c'). (s', c'(n \<mapsto> take (length s - length s') s))) (rx_match r (s, c))"

text \<open>
  Under the flag \<open>i\<close> two characters match when Canonicalize maps them to the same
  character. Canonicalize takes a character to its upper case, and never a character
  outside ASCII to an ASCII one. Every character of the patterns of this program is an
  ASCII character or has no case (an ideograph, the full-width rx_colon, the ideographic
  rx_space), so a character matches one of them under Canonicalize exactly when it does
  under \<open>canon\<close>, which handles the ASCII letters.
\<close>

definition canon :: "nat \<Rightarrow> nat" where
  "canon c = (if 97 \<le> c \<and> c \<le> 122 then c - 32 else c)"

definition rx_chr :: "nat \<Rightarrow> rx" where
  "rx_chr p = Chr (\<lambda>c. c = p)"

definition lit :: "jstring \<Rightarrow> rx" where
  "lit l = foldr (\<lambda>p r. Seq (Chr (\<lambda>c. c = p)) r) l Eps"

definition liti :: "jstring \<Rightarrow> rx" where
  "liti l = foldr (\<lambda>p r. Seq (Chr (\<lambda>c. canon c = canon p)) r) l Eps"

definition rx_plus :: "rx \<Rightarrow> rx" where
  "rx_plus r = Seq r (Star r)"

definition seqs :: "rx list \<Rightarrow> rx" where
  "seqs rs = foldr Seq rs Eps"

text \<open>The match of a pattern at the head of a string: what it consumed, what is left, the captures.\<close>

definition match_here :: "rx \<Rightarrow> jstring \<Rightarrow> (jstring \<times> jstring \<times> caps) option" where
  "match_here r s = (case rx_match r (s, Map.empty) of
       [] \<Rightarrow> None
     | (rest, c) # _ \<Rightarrow> Some (take (length s - length rest) s, rest, c))"

text \<open>
  \<open>s.match(r)\<close> and \<open>r.test(s)\<close> for a pattern without the flag \<open>g\<close>: the match at the
  first position that has one, with the text before it.
\<close>

fun rx_search :: "rx \<Rightarrow> jstring \<Rightarrow> jstring \<Rightarrow> (jstring \<times> jstring \<times> jstring \<times> caps) option" where
  "rx_search r pre [] = (case match_here r [] of
       None \<Rightarrow> None | Some (m, rest, c) \<Rightarrow> Some (pre, m, rest, c))"
| "rx_search r pre (x # xs) = (case match_here r (x # xs) of
       None \<Rightarrow> rx_search r (pre @ [x]) xs
     | Some (m, rest, c) \<Rightarrow> Some (pre, m, rest, c))"

text \<open>
  \<open>s.replace(r, f)\<close> for a pattern with the flag \<open>g\<close>: the matches are found from left
  to right, each search starting where the match before it ended (one character further
  after an empty match), and each match is replaced by what \<open>f\<close> makes of the text before
  it, the match, the text after it and the captures.
\<close>

function replace_from :: "rx \<Rightarrow> (jstring \<Rightarrow> jstring \<Rightarrow> jstring \<Rightarrow> caps \<Rightarrow> jstring)
    \<Rightarrow> jstring \<Rightarrow> jstring \<Rightarrow> jstring" where
  "replace_from r f pre [] = (case match_here r [] of
       None \<Rightarrow> [] | Some (m, rest, c) \<Rightarrow> f pre m rest c)"
| "replace_from r f pre (x # xs) = (case match_here r (x # xs) of
       None \<Rightarrow> x # replace_from r f (pre @ [x]) xs
     | Some (m, rest, c) \<Rightarrow>
         f pre m rest c @
           (if length rest < length (x # xs) then replace_from r f (pre @ m) rest
            else x # replace_from r f (pre @ [x]) xs))"
  by pat_completeness auto
termination
  by (relation "measure (\<lambda>(r, f, pre, s). length s)") auto

definition replace_global :: "rx \<Rightarrow> (jstring \<Rightarrow> jstring \<Rightarrow> jstring \<Rightarrow> caps \<Rightarrow> jstring)
    \<Rightarrow> jstring \<Rightarrow> jstring" where
  "replace_global r f s = replace_from r f [] s"

text \<open>
  The replacement text of \<open>s.replace(r, template)\<close> (GetSubstitution) for a pattern with
  \<open>m\<close> capture groups and no named group: \<open>$$\<close> is a dollar sign, \<open>$&\<close> the match,
  \<open>$`\<close> the text before the match, \<open>$'\<close> the text after it, \<open>$n\<close> and \<open>$nn\<close> the
  capture of that number when the pattern has it (two digits are tried first), and any
  other \<open>$\<close> stands for itself.
\<close>

definition cap_text :: "caps \<Rightarrow> nat \<Rightarrow> jstring" where
  "cap_text c n = (case c n of None \<Rightarrow> [] | Some t \<Rightarrow> t)"

fun expand_template :: "nat \<Rightarrow> jstring \<Rightarrow> jstring \<Rightarrow> jstring \<Rightarrow> jstring \<Rightarrow> caps \<Rightarrow> jstring" where
  "expand_template m [] pre mt post c = []"
| "expand_template m [x] pre mt post c = [x]"
| "expand_template m (x # y # t) pre mt post c =
     (if x \<noteq> 36 then x # expand_template m (y # t) pre mt post c
      else if y = 36 then 36 # expand_template m t pre mt post c
      else if y = 38 then mt @ expand_template m t pre mt post c
      else if y = 96 then pre @ expand_template m t pre mt post c
      else if y = 39 then post @ expand_template m t pre mt post c
      else if is_digit y then
        (case t of
           z # t' \<Rightarrow>
             if is_digit z \<and> 1 \<le> 10 * (y - 48) + (z - 48) \<and> 10 * (y - 48) + (z - 48) \<le> m
             then cap_text c (10 * (y - 48) + (z - 48)) @ expand_template m t' pre mt post c
             else if 1 \<le> y - 48 \<and> y - 48 \<le> m
             then cap_text c (y - 48) @ expand_template m t pre mt post c
             else 36 # y # expand_template m t pre mt post c
         | [] \<Rightarrow>
             if 1 \<le> y - 48 \<and> y - 48 \<le> m then cap_text c (y - 48)
             else [36, y])
      else 36 # expand_template m (y # t) pre mt post c)"

subsection \<open>The language of a pattern\<close>



section \<open>The Document Field-Filling Engine\<close>

text \<open>
  The document context: the input fields of the form, by name. Every value is a string; a
  field that is absent or holds the empty string is falsy, and the engine skips it.
\<close>

type_synonym doc_context = "string \<rightharpoonup> jstring"

definition has_value :: "doc_context \<Rightarrow> string \<Rightarrow> bool" where
  "has_value data k = (case data k of None \<Rightarrow> False | Some v \<Rightarrow> v \<noteq> [])"

definition field_text :: "doc_context \<Rightarrow> string \<Rightarrow> jstring" where
  "field_text data k = (case data k of None \<Rightarrow> [] | Some v \<Rightarrow> v)"

subsection \<open>Escaping\<close>

text \<open>\<open>s.replace(/c/g, t)\<close> for a single character \<open>c\<close> and a text \<open>t\<close> without a dollar sign.\<close>

definition replace_char :: "nat \<Rightarrow> jstring \<Rightarrow> jstring \<Rightarrow> jstring" where
  "replace_char c t s = concat (map (\<lambda>x. if x = c then t else [x]) s)"

definition escapeXml :: "jstring \<Rightarrow> jstring" where
  "escapeXml str = (if str = [] then []
     else replace_char 39 [38, 97, 112, 111, 115, 59]
           (replace_char 34 [38, 113, 117, 111, 116, 59]
             (replace_char 62 [38, 103, 116, 59]
               (replace_char 60 [38, 108, 116, 59]
                 (replace_char 38 [38, 97, 109, 112, 59] str)))))"

text \<open>The class \<open>[.*+?^${}()|[\]\\]\<close>: the fourteen syntax characters of a pattern.\<close>

definition is_syntax_char :: "nat \<Rightarrow> bool" where
  "is_syntax_char c = (c \<in> {46, 42, 43, 63, 94, 36, 123, 125, 40, 41, 124, 91, 93, 92})"

text \<open>\<open>str.replace(/[.*+?^${}()|[\]\\]/g, '\\$&')\<close>: a backslash before each syntax character.\<close>

definition escapeRegex :: "jstring \<Rightarrow> jstring" where
  "escapeRegex str = concat (map (\<lambda>x. if is_syntax_char x then [92, x] else [x]) str)"

text \<open>
  How a pattern reads a piece of its text that is meant as a literal: a character that
  is not a syntax character stands for itself, and so does a syntax character after a
  backslash. \<open>None\<close> when the text has a syntax character without its backslash, or a
  backslash before anything else: then the text is not a literal.
\<close>

fun pattern_literal :: "jstring \<Rightarrow> jstring option" where
  "pattern_literal [] = Some []"
| "pattern_literal [c] = (if is_syntax_char c then None else Some [c])"
| "pattern_literal (c # d # t) =
     (if c = 92 then (if is_syntax_char d then map_option ((#) d) (pattern_literal t) else None)
      else if is_syntax_char c then None
      else map_option ((#) c) (pattern_literal (d # t)))"

text \<open>
  The part of a pattern that \<open>escapeRegex(label)\<close> contributes: the literal it reads as,
  compared with or without the flag \<open>i\<close>.
\<close>

definition label_rx :: "bool \<Rightarrow> jstring \<Rightarrow> rx" where
  "label_rx ignore_case label = (case pattern_literal (escapeRegex label) of
       None \<Rightarrow> Chr (\<lambda>_. False)
     | Some l \<Rightarrow> if ignore_case then liti l else lit l)"

definition any_char :: rx where
  "any_char = Chr (\<lambda>_. True)"

definition not_chr :: "nat \<Rightarrow> rx" where
  "not_chr p = Chr (\<lambda>c. c \<noteq> p)"

definition rx_space :: rx where
  "rx_space = Chr is_space"

definition rx_colon :: rx where
  "rx_colon = Chr (\<lambda>c. c = 65306 \<or> c = 58)"

subsection \<open>The table-cell pass\<close>

text \<open>The label map of \<open>replaceTableCells\<close>: each label with the context field it reads, in the order of the source.\<close>

definition tableLabelMap :: "(jstring \<times> string) list" where
  "tableLabelMap =
    [([20225, 19994, 21517, 31216], ''companyName''),
     ([23458, 25143, 21517, 31216], ''companyName''),
     ([20511, 27454, 20154, 21517, 31216], ''companyName''),
     ([20511, 27454, 20154], ''companyName''),
     ([32479, 19968, 31038, 20250, 20449, 29992, 20195, 30721], ''creditCode''),
     ([31038, 20250, 20449, 29992, 20195, 30721], ''creditCode''),
     ([32452, 32455, 26426, 26500, 20195, 30721], ''creditCode''),
     ([27861, 23450, 20195, 34920, 20154], ''legalRep''),
     ([27861, 20154, 20195, 34920], ''legalRep''),
     ([36127, 36131, 20154], ''legalRep''),
     ([27880, 20876, 36164, 26412], ''registeredCapital''),
     ([27880, 20876, 36164, 37329], ''registeredCapital''),
     ([25104, 31435, 26085, 26399], ''establishDate''),
     ([25104, 31435, 26102, 38388], ''establishDate''),
     ([27880, 20876, 26085, 26399], ''establishDate''),
     ([25152, 23646, 34892, 19994], ''industry''),
     ([34892, 19994, 20998, 31867], ''industry''),
     ([20027, 33829, 34892, 19994], ''industry''),
     ([27880, 20876, 22320, 22336], ''registeredAddress''),
     ([20303, 25152], ''registeredAddress''),
     ([20844, 21496, 22320, 22336], ''registeredAddress''),
     ([32463, 33829, 33539, 22260], ''businessScope''),
     ([21592, 24037, 20154, 25968], ''employeeCount''),
     ([32844, 24037, 20154, 25968], ''employeeCount''),
     ([20225, 19994, 35268, 27169], ''companySize''),
     ([36164, 20135, 24635, 39069], ''totalAssetsEnd''),
     ([36164, 20135, 24635, 35745], ''totalAssetsEnd''),
     ([36127, 20538, 24635, 39069], ''totalLiabilitiesEnd''),
     ([36127, 20538, 24635, 35745], ''totalLiabilitiesEnd''),
     ([25152, 26377, 32773, 26435, 30410], ''ownerEquityEnd''),
     ([20928, 36164, 20135], ''ownerEquityEnd''),
     ([33829, 19994, 25910, 20837], ''revenueCurrent''),
     ([20928, 21033, 28070], ''netProfitCurrent''),
     ([21033, 28070, 24635, 39069], ''netProfitCurrent''),
     ([36164, 20135, 36127, 20538, 29575], ''debtRatioEnd''),
     ([25480, 20449, 37329, 39069], ''creditAmount''),
     ([36151, 27454, 37329, 39069], ''creditAmount''),
     ([30003, 35831, 37329, 39069], ''creditAmount''),
     ([25480, 20449, 26399, 38480], ''creditPeriod''),
     ([36151, 27454, 26399, 38480], ''creditPeriod''),
     ([25480, 20449, 31867, 22411], ''creditType''),
     ([36151, 27454, 31867, 22411], ''creditType''),
     ([36151, 27454, 21697, 31181], ''creditType''),
     ([25480, 20449, 29992, 36884], ''creditPurpose''),
     ([36151, 27454, 29992, 36884], ''creditPurpose''),
     ([36164, 37329, 29992, 36884], ''creditPurpose'')]"

text \<open>
  The pattern of \<open>replaceTableCells\<close>, with the flags \<open>g\<close>, \<open>i\<close> and \<open>s\<close> (the dot
  matches every character):
  \<^verbatim>\<open>(<w:tc[^>]*>.*?<w:t[^>]*>)([^<]*LABEL[^<]*)(<\/w:t>.*?<\/w:tc>\s*<w:tc[^>]*>.*?<w:t[^>]*>)([_\s]*)(<\/w:t>)\<close>
\<close>

definition blank_char :: "nat \<Rightarrow> bool" where
  "blank_char c = (c = 95 \<or> is_space c)"

definition table_rx :: "jstring \<Rightarrow> rx" where
  "table_rx label = seqs
     [Grp 1 (seqs [liti [60, 119, 58, 116, 99], Star (not_chr 62), rx_chr 62, Lazy any_char,
                   liti [60, 119, 58, 116], Star (not_chr 62), rx_chr 62]),
      Grp 2 (seqs [Star (not_chr 60), label_rx True label, Star (not_chr 60)]),
      Grp 3 (seqs [liti [60, 47, 119, 58, 116, 62], Lazy any_char,
                   liti [60, 47, 119, 58, 116, 99, 62], Star rx_space,
                   liti [60, 119, 58, 116, 99], Star (not_chr 62), rx_chr 62, Lazy any_char,
                   liti [60, 119, 58, 116], Star (not_chr 62), rx_chr 62]),
      Grp 4 (Star (Chr blank_char)),
      Grp 5 (liti [60, 47, 119, 58, 116, 62])]"

text \<open>
  The replacement function of the pass: \<open>p4.trim() === ''\<close> or \<open>/^[_\s]+$/.test(p4)\<close>
  decides whether the fourth capture gives way to the escaped value.
\<close>

definition table_replacer :: "jstring \<Rightarrow> jstring \<Rightarrow> jstring \<Rightarrow> jstring \<Rightarrow> caps \<Rightarrow> jstring" where
  "table_replacer v pre m post c = (let p4 = cap_text c 4 in
     if trim p4 = [] \<or> (p4 \<noteq> [] \<and> list_all blank_char p4)
     then cap_text c 1 @ cap_text c 2 @ cap_text c 3 @ escapeXml v @ cap_text c 5
     else m)"

definition table_step :: "doc_context \<Rightarrow> jstring \<Rightarrow> jstring \<times> string \<Rightarrow> jstring" where
  "table_step data xml lf = (case lf of (label, fld) \<Rightarrow>
     if has_value data fld
     then replace_global (table_rx label) (table_replacer (field_text data fld)) xml
     else xml)"

definition replaceTableCells :: "jstring \<Rightarrow> doc_context \<Rightarrow> jstring" where
  "replaceTableCells xml data = foldl (table_step data) xml tableLabelMap"

subsection \<open>The colon-label pass\<close>

text \<open>The label map of \<open>replaceLabeledContent\<close>.\<close>

definition colonLabelMap :: "(jstring \<times> string) list" where
  "colonLabelMap =
    [([20225, 19994, 21517, 31216], ''companyName''),
     ([23458, 25143, 21517, 31216], ''companyName''),
     ([32479, 19968, 31038, 20250, 20449, 29992, 20195, 30721], ''creditCode''),
     ([27861, 23450, 20195, 34920, 20154], ''legalRep''),
     ([27880, 20876, 36164, 26412], ''registeredCapital''),
     ([25104, 31435, 26085, 26399], ''establishDate''),
     ([25152, 23646, 34892, 19994], ''industry''),
     ([27880, 20876, 22320, 22336], ''registeredAddress''),
     ([25480, 20449, 37329, 39069], ''creditAmount''),
     ([25480, 20449, 26399, 38480], ''creditPeriod'')]"

text \<open>
  The pattern of \<open>replaceLabeledContent\<close>, with the flags \<open>g\<close> and \<open>i\<close>:
  \<^verbatim>\<open>(<w:t[^>]*>)(LABEL[:][\s]*)(_+|[\s]{2,}|+)(<\/w:t>)\<close>
  where the class after the label holds the full-width and the ASCII colon and the last
  alternative repeats the ideographic space U+3000. The replacement is the text
  \<open>$1$2\<close>, the escaped value and \<open>$4\<close>.
\<close>

definition colon_rx :: "jstring \<Rightarrow> rx" where
  "colon_rx label = seqs
     [Grp 1 (seqs [liti [60, 119, 58, 116], Star (not_chr 62), rx_chr 62]),
      Grp 2 (seqs [label_rx True label, rx_colon, Star rx_space]),
      Grp 3 (Alt (rx_plus (rx_chr 95)) (Alt (seqs [rx_space, rx_space, Star rx_space]) (rx_plus (rx_chr 12288)))),
      Grp 4 (liti [60, 47, 119, 58, 116, 62])]"

definition colon_step :: "doc_context \<Rightarrow> jstring \<Rightarrow> jstring \<times> string \<Rightarrow> jstring" where
  "colon_step data xml lf = (case lf of (label, fld) \<Rightarrow>
     if has_value data fld
     then replace_global (colon_rx label)
            (expand_template 4 ([36, 49, 36, 50] @ escapeXml (field_text data fld) @ [36, 52])) xml
     else xml)"

definition replaceLabeledContent :: "jstring \<Rightarrow> doc_context \<Rightarrow> jstring" where
  "replaceLabeledContent xml data = foldl (colon_step data) xml colonLabelMap"

subsection \<open>The trailing-underscore pass\<close>

text \<open>The patterns of \<open>replaceBlankFields\<close>.\<close>

definition blankPatterns :: "(jstring \<times> string) list" where
  "blankPatterns =
    [([20225, 19994, 21517, 31216], ''companyName''),
     ([23458, 25143, 21517, 31216], ''companyName''),
     ([27861, 23450, 20195, 34920, 20154], ''legalRep''),
     ([27880, 20876, 36164, 26412], ''registeredCapital''),
     ([25104, 31435, 26085, 26399], ''establishDate''),
     ([25480, 20449, 37329, 39069], ''creditAmount''),
     ([25480, 20449, 26399, 38480], ''creditPeriod'')]"

text \<open>
  The pattern of \<open>replaceBlankFields\<close>, with the flag \<open>g\<close>: \<^verbatim>\<open>(LABEL[:]\s*)(_+)\<close>, with
  the two colons in the class. The replacement is the text \<open>$1\<close> and the escaped value.
\<close>

definition blank_rx :: "jstring \<Rightarrow> rx" where
  "blank_rx label = seqs
     [Grp 1 (seqs [label_rx False label, rx_colon, Star rx_space]),
      Grp 2 (rx_plus (rx_chr 95))]"

definition blank_step :: "doc_context \<Rightarrow> jstring \<Rightarrow> jstring \<times> string \<Rightarrow> jstring" where
  "blank_step data xml lf = (case lf of (label, fld) \<Rightarrow>
     if has_value data fld
     then replace_global (blank_rx label)
            (expand_template 2 ([36, 49] @ escapeXml (field_text data fld))) xml
     else xml)"

definition replaceBlankFields :: "jstring \<Rightarrow> doc_context \<Rightarrow> jstring" where
  "replaceBlankFields xml data = foldl (blank_step data) xml blankPatterns"

subsection \<open>The structured appendix\<close>

text \<open>\<open>formatDate(new Date())\<close>, for the year, month and day the clock gives.\<close>

definition pad2 :: "nat \<Rightarrow> jstring" where
  "pad2 n = (if n < 10 then 48 # dec_digits n else dec_digits n)"

definition formatDate :: "nat \<times> nat \<times> nat \<Rightarrow> jstring" where
  "formatDate ymd = (case ymd of (year, month, day) \<Rightarrow>
     dec_digits year @ [24180] @ pad2 month @ [26376] @ pad2 day @ [26085])"

datatype align = AlignLeft | AlignCenter | AlignRight

definition align_name :: "align \<Rightarrow> jstring" where
  "align_name a = (case a of AlignLeft \<Rightarrow> [108, 101, 102, 116]
     | AlignCenter \<Rightarrow> [99, 101, 110, 116, 101, 114]
     | AlignRight \<Rightarrow> [114, 105, 103, 104, 116])"

text \<open>The fixed pieces of the template literal of \<open>createParagraph\<close>, with its line breaks and indentation.\<close>

definition para_open :: jstring where
  "para_open =
     [10, 32, 32, 32, 32, 32, 32, 32, 32, 32, 32, 32, 32, 60, 119, 58, 112, 62, 10, 32, 32, 32,
      32, 32, 32, 32, 32, 32, 32, 32, 32, 32, 32, 32, 32, 60, 119, 58, 112, 80, 114, 62, 10,
      32, 32, 32, 32, 32, 32, 32, 32, 32, 32, 32, 32, 32, 32, 32, 32, 32, 32, 32, 32, 60, 119,
      58, 106, 99, 32, 119, 58, 118, 97, 108, 61, 34]"

definition para_props :: jstring where
  "para_props =
     [34, 47, 62, 10, 32, 32, 32, 32, 32, 32, 32, 32, 32, 32, 32, 32, 32, 32, 32, 32, 60, 47,
      119, 58, 112, 80, 114, 62, 10, 32, 32, 32, 32, 32, 32, 32, 32, 32, 32, 32, 32, 32, 32,
      32, 32, 60, 119, 58, 114, 62, 10, 32, 32, 32, 32, 32, 32, 32, 32, 32, 32, 32, 32, 32, 32,
      32, 32, 32, 32, 32, 32, 60, 119, 58, 114, 80, 114, 62, 10, 32, 32, 32, 32, 32, 32, 32,
      32, 32, 32, 32, 32, 32, 32, 32, 32, 32, 32, 32, 32, 32, 32, 32, 32, 60, 119, 58, 114, 70,
      111, 110, 116, 115, 32, 119, 58, 97, 115, 99, 105, 105, 61, 34, 23435, 20307, 34, 32,
      119, 58, 104, 65, 110, 115, 105, 61, 34, 23435, 20307, 34, 32, 119, 58, 101, 97, 115,
      116, 65, 115, 105, 97, 61, 34, 23435, 20307, 34, 47, 62, 10, 32, 32, 32, 32, 32, 32, 32,
      32, 32, 32, 32, 32, 32, 32, 32, 32, 32, 32, 32, 32, 32, 32, 32, 32]"

definition para_gap :: jstring where
  "para_gap =
     [10, 32, 32, 32, 32, 32, 32, 32, 32, 32, 32, 32, 32, 32, 32, 32, 32, 32, 32, 32, 32, 32,
      32, 32, 32]"

definition para_text_open :: jstring where
  "para_text_open =
     [10, 32, 32, 32, 32, 32, 32, 32, 32, 32, 32, 32, 32, 32, 32, 32, 32, 32, 32, 32, 32, 60,
      47, 119, 58, 114, 80, 114, 62, 10, 32, 32, 32, 32, 32, 32, 32, 32, 32, 32, 32, 32, 32,
      32, 32, 32, 32, 32, 32, 32, 60, 119, 58, 116, 62]"

definition para_close :: jstring where
  "para_close =
     [60, 47, 119, 58, 116, 62, 10, 32, 32, 32, 32, 32, 32, 32, 32, 32, 32, 32, 32, 32, 32, 32,
      32, 60, 47, 119, 58, 114, 62, 10, 32, 32, 32, 32, 32, 32, 32, 32, 32, 32, 32, 32, 60, 47,
      119, 58, 112, 62, 10, 32, 32, 32, 32, 32, 32, 32, 32]"

definition bold_xml :: jstring where
  "bold_xml =
     [60, 119, 58, 98, 47, 62, 60, 119, 58, 98, 67, 115, 47, 62]"

definition size_bold_xml :: jstring where
  "size_bold_xml =
     [60, 119, 58, 115, 122, 32, 119, 58, 118, 97, 108, 61, 34, 50, 56, 34, 47, 62, 60, 119,
      58, 115, 122, 67, 115, 32, 119, 58, 118, 97, 108, 61, 34, 50, 56, 34, 47, 62]"

definition size_plain_xml :: jstring where
  "size_plain_xml =
     [60, 119, 58, 115, 122, 32, 119, 58, 118, 97, 108, 61, 34, 50, 52, 34, 47, 62, 60, 119,
      58, 115, 122, 67, 115, 32, 119, 58, 118, 97, 108, 61, 34, 50, 52, 34, 47, 62]"

definition createParagraph :: "jstring \<Rightarrow> bool \<Rightarrow> align \<Rightarrow> jstring" where
  "createParagraph text bold al =
     para_open @ align_name al @ para_props @ (if bold then bold_xml else []) @ para_gap
     @ (if bold then size_bold_xml else size_plain_xml) @ para_text_open
     @ escapeXml text @ para_close"

text \<open>The page break that opens the section.\<close>

definition page_break :: jstring where
  "page_break =
     [10, 32, 32, 32, 32, 32, 32, 32, 32, 32, 32, 32, 32, 60, 119, 58, 112, 62, 10, 32, 32, 32,
      32, 32, 32, 32, 32, 32, 32, 32, 32, 32, 32, 32, 32, 60, 119, 58, 114, 62, 10, 32, 32, 32,
      32, 32, 32, 32, 32, 32, 32, 32, 32, 32, 32, 32, 32, 32, 32, 32, 32, 60, 119, 58, 98, 114,
      32, 119, 58, 116, 121, 112, 101, 61, 34, 112, 97, 103, 101, 34, 47, 62, 10, 32, 32, 32,
      32, 32, 32, 32, 32, 32, 32, 32, 32, 32, 32, 32, 32, 60, 47, 119, 58, 114, 62, 10, 32, 32,
      32, 32, 32, 32, 32, 32, 32, 32, 32, 32, 60, 47, 119, 58, 112, 62, 10, 32, 32, 32, 32, 32,
      32, 32, 32]"

definition summary_title :: jstring where
  "summary_title =
     [25480, 20449, 25253, 21578, 22635, 20889, 25968, 25454, 27719, 24635]"

definition company_heading :: jstring where
  "company_heading =
     [19968, 12289, 20225, 19994, 22522, 26412, 20449, 24687]"

definition financial_heading :: jstring where
  "financial_heading =
     [20108, 12289, 36130, 21153, 20449, 24687]"

definition credit_heading :: jstring where
  "credit_heading =
     [19977, 12289, 25480, 20449, 20449, 24687]"

definition business_scope_label :: jstring where
  "business_scope_label =
     [32463, 33829, 33539, 22260]"

definition report_date_label :: jstring where
  "report_date_label =
     [25253, 21578, 26085, 26399, 65306]"

text \<open>The items of the three data subsections: label, context field and unit.\<close>

definition companyInfo :: "(jstring \<times> string \<times> jstring) list" where
  "companyInfo =
    [([20225, 19994, 21517, 31216], ''companyName'', []),
     ([32479, 19968, 31038, 20250, 20449, 29992, 20195, 30721], ''creditCode'', []),
     ([27861, 23450, 20195, 34920, 20154], ''legalRep'', []),
     ([27880, 20876, 36164, 26412], ''registeredCapital'', []),
     ([25104, 31435, 26085, 26399], ''establishDate'', []),
     ([25152, 23646, 34892, 19994], ''industry'', []),
     ([20225, 19994, 35268, 27169], ''companySize'', []),
     ([21592, 24037, 20154, 25968], ''employeeCount'', []),
     ([27880, 20876, 22320, 22336], ''registeredAddress'', [])]"

definition financialInfo :: "(jstring \<times> string \<times> jstring) list" where
  "financialInfo =
    [([36164, 20135, 24635, 39069], ''totalAssetsEnd'', [19975, 20803]),
     ([36127, 20538, 24635, 39069], ''totalLiabilitiesEnd'', [19975, 20803]),
     ([25152, 26377, 32773, 26435, 30410], ''ownerEquityEnd'', [19975, 20803]),
     ([33829, 19994, 25910, 20837], ''revenueCurrent'', [19975, 20803]),
     ([20928, 21033, 28070], ''netProfitCurrent'', [19975, 20803]),
     ([36164, 20135, 36127, 20538, 29575], ''debtRatioEnd'', [37])]"

definition creditInfo :: "(jstring \<times> string \<times> jstring) list" where
  "creditInfo =
    [([25480, 20449, 31867, 22411], ''creditType'', []),
     ([25480, 20449, 37329, 39069], ''creditAmount'', [19975, 20803]),
     ([25480, 20449, 26399, 38480], ''creditPeriod'', [20010, 26376]),
     ([25480, 20449, 29992, 36884], ''creditPurpose'', [])]"

text \<open>The narrative sections: heading and context field.\<close>

definition textSections :: "(jstring \<times> string) list" where
  "textSections =
    [([22235, 12289, 20225, 19994, 22522, 26412, 24773, 20917], ''basicSituation''),
     ([20116, 12289, 23454, 38469, 25511, 21046, 20154, 24773, 20917], ''controllerSituation''),
     ([20845, 12289, 32463, 33829, 29366, 20917, 20998, 26512], ''businessStatus''),
     ([19971, 12289, 24066, 22330, 20998, 26512], ''marketAnalysis''),
     ([20843, 12289, 36130, 21153, 29366, 20917, 27010, 36848], ''financialOverview''),
     ([20061, 12289, 36130, 21153, 25351, 26631, 20998, 26512], ''financialIndicators''),
     ([21313, 12289, 20449, 29992, 39118, 38505, 20998, 26512], ''creditRisk''),
     ([21313, 19968, 12289, 24066, 22330, 39118, 38505, 20998, 26512], ''marketRisk''),
     ([21313, 20108, 12289, 24635, 20307, 35780, 20215], ''overallEvaluation''),
     ([21313, 19977, 12289, 25480, 20449, 24314, 35758], ''creditSuggestion'')]"

definition blank_paragraph :: jstring where
  "blank_paragraph = createParagraph [] False AlignLeft"

definition item_paragraphs :: "doc_context \<Rightarrow> (jstring \<times> string \<times> jstring) list \<Rightarrow> jstring list" where
  "item_paragraphs data its = concat (map (\<lambda>(label, fld, unit).
     if has_value data fld
     then [createParagraph (label @ [65306] @ field_text data fld @ unit) False AlignLeft]
     else []) its)"

text \<open>\<open>s.split('\n')\<close>, for a string that is not empty.\<close>

fun split_lines :: "jstring \<Rightarrow> jstring list" where
  "split_lines [] = [[]]"
| "split_lines (c # cs) = (if c = 10 then [] # split_lines cs
     else (case split_lines cs of l # ls \<Rightarrow> (c # l) # ls | [] \<Rightarrow> [[c]]))"

definition narrative_paragraphs :: "doc_context \<Rightarrow> jstring \<times> string \<Rightarrow> jstring list" where
  "narrative_paragraphs data tf = (case tf of (title, fld) \<Rightarrow>
     if has_value data fld
     then [createParagraph title True AlignLeft, blank_paragraph]
          @ map (\<lambda>line. createParagraph ([32, 32, 32, 32] @ line) False AlignLeft)
                (filter (\<lambda>l. trim l \<noteq> []) (split_lines (field_text data fld)))
          @ [blank_paragraph]
     else [])"

text \<open>The array \<open>sections\<close> of \<open>createFilledContentSection\<close>, before it is joined.\<close>

definition filled_sections :: "nat \<times> nat \<times> nat \<Rightarrow> doc_context \<Rightarrow> jstring list" where
  "filled_sections today data =
     [page_break, createParagraph summary_title True AlignCenter, blank_paragraph]
     @ (if has_value data ''companyName'' \<or> has_value data ''creditCode'' \<or> has_value data ''legalRep''
        then [createParagraph company_heading True AlignLeft, blank_paragraph]
             @ item_paragraphs data companyInfo
             @ (if has_value data ''businessScope''
                then [createParagraph (business_scope_label @ [65306] @ field_text data ''businessScope'')
                        False AlignLeft]
                else [])
             @ [blank_paragraph]
        else [])
     @ (if has_value data ''totalAssetsEnd'' \<or> has_value data ''revenueCurrent''
        then [createParagraph financial_heading True AlignLeft, blank_paragraph]
             @ item_paragraphs data financialInfo @ [blank_paragraph]
        else [])
     @ (if has_value data ''creditType'' \<or> has_value data ''creditAmount''
        then [createParagraph credit_heading True AlignLeft, blank_paragraph]
             @ item_paragraphs data creditInfo @ [blank_paragraph]
        else [])
     @ concat (map (narrative_paragraphs data) textSections)
     @ [blank_paragraph,
        createParagraph (report_date_label @ formatDate today) False AlignRight]"

text \<open>\<open>sections.join('\n')\<close>\<close>

fun join_lines :: "jstring list \<Rightarrow> jstring" where
  "join_lines [] = []"
| "join_lines [x] = x"
| "join_lines (x # y # t) = x @ 10 # join_lines (y # t)"

definition createFilledContentSection :: "nat \<times> nat \<times> nat \<Rightarrow> doc_context \<Rightarrow> jstring" where
  "createFilledContentSection today data = join_lines (filled_sections today data)"

text \<open>\<open>s.lastIndexOf(t)\<close>, with \<open>None\<close> for -1.\<close>

definition last_index_of :: "jstring \<Rightarrow> jstring \<Rightarrow> nat option" where
  "last_index_of s t = List.find (\<lambda>i. starts_with (drop i s) t) (rev [0 ..< Suc (length s)])"

definition body_end :: jstring where
  "body_end = [60, 47, 119, 58, 98, 111, 100, 121, 62]"

definition appendFilledContent :: "nat \<times> nat \<times> nat \<Rightarrow> jstring \<Rightarrow> doc_context \<Rightarrow> jstring" where
  "appendFilledContent today xml data = (case last_index_of xml body_end of
       None \<Rightarrow> xml
     | Some bodyEndPos \<Rightarrow>
         take bodyEndPos xml @ createFilledContentSection today data @ drop bodyEndPos xml)"

text \<open>
  The heuristic strategy. The source stores the text it returns here as the document body
  of the package and serialises the package.
\<close>

definition generateWithSmartReplacement :: "nat \<times> nat \<times> nat \<Rightarrow> doc_context \<Rightarrow> jstring \<Rightarrow> jstring" where
  "generateWithSmartReplacement today data documentXml =
     appendFilledContent today
       (replaceBlankFields (replaceLabeledContent (replaceTableCells documentXml data) data) data)
       data"

text \<open>
  \<open>generateDocument\<close> chooses the strategy by testing the body for the pattern
  \<^verbatim>\<open>\{[a-zA-Z_][a-zA-Z0-9_]*\}\<close>. The placeholder strategy is the work of the templating
  library and is not modelled.
\<close>

definition placeholder_test_rx :: rx where
  "placeholder_test_rx = seqs
     [rx_chr 123,
      Chr (\<lambda>c. (97 \<le> c \<and> c \<le> 122) \<or> (65 \<le> c \<and> c \<le> 90) \<or> c = 95),
      Star (Chr (\<lambda>c. (97 \<le> c \<and> c \<le> 122) \<or> (65 \<le> c \<and> c \<le> 90) \<or> is_digit c \<or> c = 95)),
      rx_chr 125]"

datatype generated = ByDocxtemplater | BySmartReplacement jstring

definition generateDocument :: "nat \<times> nat \<times> nat \<Rightarrow> doc_context \<Rightarrow> jstring \<Rightarrow> generated" where
  "generateDocument today data documentXml =
     (let hasPlaceholders = (rx_search placeholder_test_rx [] documentXml \<noteq> None) in
      if hasPlaceholders then ByDocxtemplater
      else BySmartReplacement (generateWithSmartReplacement today data documentXml))"

subsection \<open>The specification of a blank fill\<close>

text \<open>
  A text run closes where \<open></w:t>\<close> stands, in upper or lower case, as the flag \<open>i\<close>
  lets the pattern of the table-cell pass read it.
\<close>

definition closes_text :: "jstring \<Rightarrow> bool" where
  "closes_text xs = (map canon (take 6 xs) = [60, 47, 87, 58, 84, 62])"

text \<open>
  \<open>blank_fill v x y\<close>: \<open>y\<close> is \<open>x\<close> in which some texts that stand between a \<open>>\<close>
  and the closing tag of a text run, and consist of underscores and white space only
  (or are empty), have given way to the escaped value \<open>v\<close>. Every other character of
  \<open>x\<close> stands in \<open>y\<close> as it was.
\<close>

inductive blank_fill :: "jstring \<Rightarrow> jstring \<Rightarrow> jstring \<Rightarrow> bool" where
  Nil: "blank_fill v [] []"
| Keep: "blank_fill v xs ys \<Longrightarrow> blank_fill v (x # xs) (x # ys)"
| Fill: "list_all blank_char b \<Longrightarrow> closes_text xs \<Longrightarrow> blank_fill v xs ys
           \<Longrightarrow> blank_fill v (62 # b @ xs) (62 # escapeXml v @ ys)"


section \<open>The Template Analyzer\<close>







subsection \<open>The specification of the analyzer\<close>



section \<open>The Business-Record Parser\<close>

text \<open>The nine patterns of \<open>parseBusinessInfoFromText\<close>, in the order of the source.\<close>

definition rx_digit :: rx where
  "rx_digit = Chr is_digit"

definition rest_of_line :: rx where
  "rest_of_line = rx_plus (not_chr 10)"

definition companyName_rx :: rx where
  "companyName_rx =
     seqs [Alt (lit [20225, 19994, 21517, 31216])
              (Alt (lit [20844, 21496, 21517, 31216])
              (lit [21517, 31216])),
           rx_colon, Star rx_space,
           Grp 1 (rest_of_line)]"

definition creditCode_rx :: rx where
  "creditCode_rx =
     seqs [Alt (liti [32479, 19968, 31038, 20250, 20449, 29992, 20195, 30721])
              (liti [20449, 29992, 20195, 30721]),
           rx_colon, Star rx_space,
           Grp 1 (rx_plus (Chr (\<lambda>c. (65 \<le> canon c \<and> canon c \<le> 90) \<or> is_digit c)))]"

definition legalRep_rx :: rx where
  "legalRep_rx =
     seqs [Alt (lit [27861, 23450, 20195, 34920, 20154])
              (Alt (lit [27861, 20154, 20195, 34920])
              (lit [36127, 36131, 20154])),
           rx_colon, Star rx_space,
           Grp 1 (rest_of_line)]"

definition registeredCapital_rx :: rx where
  "registeredCapital_rx =
     seqs [Alt (lit [27880, 20876, 36164, 26412])
              (lit [27880, 20876, 36164, 37329]),
           rx_colon, Star rx_space,
           Grp 1 (rest_of_line)]"

definition establishDate_rx :: rx where
  "establishDate_rx =
     seqs [Alt (lit [25104, 31435, 26085, 26399])
              (Alt (lit [27880, 20876, 26085, 26399])
              (lit [25104, 31435, 26102, 38388])),
           rx_colon, Star rx_space,
           Grp 1 (seqs [rx_digit, rx_digit, rx_digit, rx_digit,
                    Chr (\<lambda>c. c = 45 \<or> c = 47 \<or> c = 24180), rx_digit, Alt rx_digit Eps,
                    Chr (\<lambda>c. c = 45 \<or> c = 47 \<or> c = 26376), rx_digit, Alt rx_digit Eps])]"

definition registeredAddress_rx :: rx where
  "registeredAddress_rx =
     seqs [Alt (lit [27880, 20876, 22320, 22336])
              (Alt (lit [20303, 25152])
              (lit [32463, 33829, 22330, 25152])),
           rx_colon, Star rx_space,
           Grp 1 (rest_of_line)]"

definition businessScope_rx :: rx where
  "businessScope_rx =
     seqs [lit [32463, 33829, 33539, 22260],
           rx_colon, Star rx_space,
           Grp 1 (rest_of_line)]"

definition industry_rx :: rx where
  "industry_rx =
     seqs [Alt (lit [34892, 19994])
              (lit [25152, 23646, 34892, 19994]),
           rx_colon, Star rx_space,
           Grp 1 (rest_of_line)]"

definition companyType_rx :: rx where
  "companyType_rx =
     seqs [Alt (lit [20225, 19994, 31867, 22411])
              (lit [20844, 21496, 31867, 22411]),
           rx_colon, Star rx_space,
           Grp 1 (rest_of_line)]"

definition business_patterns :: "(string \<times> rx) list" where
  "business_patterns =
    [(''companyName'', companyName_rx),
     (''creditCode'', creditCode_rx),
     (''legalRep'', legalRep_rx),
     (''registeredCapital'', registeredCapital_rx),
     (''establishDate'', establishDate_rx),
     (''registeredAddress'', registeredAddress_rx),
     (''businessScope'', businessScope_rx),
     (''industry'', industry_rx),
     (''companyType'', companyType_rx)]"

text \<open>\<open>text.match(pattern)\<close> and, on a match, \<open>info[key] = match[1].trim()\<close>.\<close>

definition business_step :: "jstring \<Rightarrow> (string \<rightharpoonup> jstring) \<Rightarrow> string \<times> rx \<Rightarrow> (string \<rightharpoonup> jstring)" where
  "business_step text info kp = (case kp of (key, pattern) \<Rightarrow>
     (case rx_search pattern [] text of
        None \<Rightarrow> info
      | Some (pre, m, rest, c) \<Rightarrow> info(key \<mapsto> trim (cap_text c 1))))"

definition parseBusinessInfoFromText :: "jstring \<Rightarrow> (string \<rightharpoonup> jstring)" where
  "parseBusinessInfoFromText text = foldl (business_step text) Map.empty business_patterns"

text \<open>The pattern \<^verbatim>\<open>\{[\s\S]*\}\<close> of \<open>parseBusinessInfo\<close>.\<close>

definition brace_rx :: rx where
  "brace_rx = seqs [rx_chr 123, Star any_char, rx_chr 125]"

text \<open>
  What \<open>parseBusinessInfo\<close> returns: the object \<open>JSON.parse\<close> gave, or the record of
  the text fallback. \<open>JSON.parse\<close> is the parameter \<open>json_parse\<close>, with \<open>None\<close> where it
  throws; the \<open>catch\<close> clause then runs the fallback.
\<close>

datatype 'j business_info = FromJson 'j | FromText "string \<rightharpoonup> jstring"

definition parseBusinessInfo :: "(jstring \<Rightarrow> 'j option) \<Rightarrow> jstring \<Rightarrow> 'j business_info" where
  "parseBusinessInfo json_parse ocrResult = (case rx_search brace_rx [] ocrResult of
       Some (pre, jsonMatch, rest, c) \<Rightarrow>
         (case json_parse jsonMatch of
            Some info \<Rightarrow> FromJson info
          | None \<Rightarrow> FromText (parseBusinessInfoFromText ocrResult))
     | None \<Rightarrow> FromText (parseBusinessInfoFromText ocrResult))"

subsection \<open>The specification of the brace-delimited span\<close>

text \<open>
  The first brace-delimited span in the words of the specification: the text from the
  first opening brace to the closing brace that belongs to it, with the braces between
  them in pairs. \<open>brace_group d cs\<close> reads on to the closing brace at depth \<open>d\<close>.
\<close>

fun brace_group :: "nat \<Rightarrow> jstring \<Rightarrow> jstring option" where
  "brace_group d [] = None"
| "brace_group d (c # cs) =
     (if c = 125 then (if d = 0 then Some [c] else map_option ((#) c) (brace_group (d - 1) cs))
      else if c = 123 then map_option ((#) c) (brace_group (Suc d) cs)
      else map_option ((#) c) (brace_group d cs))"

definition first_brace_span :: "jstring \<Rightarrow> jstring option" where
  "first_brace_span text = (case dropWhile (\<lambda>c. c \<noteq> 123) text of
       [] \<Rightarrow> None
     | c # cs \<Rightarrow> map_option ((#) c) (brace_group 0 cs))"

text \<open>
  The span the pattern \<open>/\{[\s\S]*\}/\<close> of the source matches, as the amended statement
  has it: the text from the first opening brace to the last closing brace after it.
\<close>

definition outer_brace_span :: "jstring \<Rightarrow> jstring option" where
  "outer_brace_span text = (let t = dropWhile (\<lambda>c. c \<noteq> 123) text in
     if t \<noteq> [] \<and> 125 \<in> set (tl t)
     then Some (rev (dropWhile (\<lambda>c. c \<noteq> 125) (rev t)))
     else None)"
section \<open>Evaluating the rounding\<close>

lemma bitlen_numeral:
  "bitlen (numeral n) = bitlen (numeral n div 2) + 1"
  "bitlen 1 = 1"
  by (subst compute_bitlen, simp)+

lemma floor_rat_numeral:
  "\<lfloor>numeral a / numeral b :: rat\<rfloor> = numeral a div numeral b"
  "\<lfloor>- (numeral a / numeral b) :: rat\<rfloor> = - numeral a div numeral b"
  "\<lfloor>1 / numeral b :: rat\<rfloor> = 1 div numeral b"
  "\<lfloor>- (1 / numeral b) :: rat\<rfloor> = - 1 div numeral b"
     apply (metis floor_divide_of_int_eq of_int_numeral)
    apply (metis divide_minus_left floor_divide_of_int_eq of_int_neg_numeral of_int_numeral)
   apply (metis floor_divide_of_int_eq of_int_numeral of_int_1)
  apply (metis divide_minus_left floor_divide_of_int_eq of_int_minus of_int_numeral of_int_1)
  done

lemmas round64_eval =
  round64_def flog2_def pow2_def round_half_even_def Let_def bitlen_numeral floor_rat_numeral

lemma round64_1234567: "round64 1234567 = Fin 1234567"
  by (simp add: round64_eval)

lemma parseFloat_empty: "parseFloat [] = NaN"
  by (simp add: parseFloat_def starts_with_def unsigned_literal_def)

section \<open>Properties of the Numeric Normalizer\<close>

text \<open>
  C10. Among the numeric inputs that are not finite, \<open>parseNumber\<close> rejects NaN only: it
  returns null for NaN, and returns Infinity and -Infinity unchanged.
\<close>

theorem parseNumber_nonfinite:
  "parseNumber (JNum NaN) = None
   \<and> parseNumber (JNum PosInf) = Some PosInf
   \<and> parseNumber (JNum NegInf) = Some NegInf"
  by (simp add: parseNumber_def)

text \<open>
  C5. \<open>parseNumber\<close> returns a finite number unchanged. What it returns for a string is
  what it returns for the string without its ASCII commas, full-width commas, white
  space and the glyphs U+4E07, U+5143, U+5343 and U+767E, so that a formatted numeral
  gives the value of the plain one: the string of "1,234,567" followed by U+5143 gives
  1234567. The empty string, null and undefined give null, not zero.
\<close>

theorem parseNumber_normalizer:
  "parseNumber (JNum (Fin r)) = Some (Fin r)
   \<and> parseNumber (JStr s) =
       parseNumber (JStr (filter (\<lambda>c. c \<notin> {44, 65292, 19975, 20803, 21315, 30334} \<and> \<not> is_space c) s))
   \<and> parseNumber (JStr [49, 44, 50, 51, 52, 44, 53, 54, 55, 20803]) = Some (Fin 1234567)
   \<and> parseNumber (JStr [49, 50, 51, 52, 53, 54, 55]) = Some (Fin 1234567)
   \<and> parseNumber (JStr []) = None \<and> parseNumber JNull = None \<and> parseNumber JUndefined = None"
proof -
  have fmt: "(\<lambda>c. c \<notin> {44, 65292, 19975, 20803, 21315, 30334} \<and> \<not> is_space c)
      = (\<lambda>c. \<not> is_formatting c)"
    by (auto simp: is_formatting_def)
  have strip: "parseNumber (JStr s) = parseNumber (JStr (filter (\<lambda>c. \<not> is_formatting c) s))"
    by (simp add: parseNumber_def parseFloat_empty)
  have plain: "parseFloat [49, 50, 51, 52, 53, 54, 55] = Fin 1234567"
    by (simp add: parseFloat_def starts_with_def unsigned_literal_def is_digit_def
        digits_val_def exponent_part_def pow10_def is_space_def round64_1234567)
  have ex1: "parseNumber (JStr [49, 44, 50, 51, 52, 44, 53, 54, 55, 20803]) = Some (Fin 1234567)"
    by (simp add: parseNumber_def is_formatting_def is_space_def plain)
  have ex2: "parseNumber (JStr [49, 50, 51, 52, 53, 54, 55]) = Some (Fin 1234567)"
    by (simp add: parseNumber_def is_formatting_def is_space_def plain)
  show ?thesis
    unfolding fmt using strip ex1 ex2 by (simp add: parseNumber_def)
qed

section \<open>Properties of the Spreadsheet Fact Extractor\<close>

lemma parseNumber_not_NaN: "parseNumber c \<noteq> Some NaN"
  by (auto simp: parseNumber_def Let_def split: jsval.splits if_splits)

lemma first_value_spec: "first_value cs = spec_first_number cs"
  by (induction cs) (auto simp: spec_first_number_def is_nonzero_number_def split: option.splits)

lemma first_value_truthy: "first_value cs = Some v \<Longrightarrow> truthy_num v"
proof (induction cs)
  case Nil then show ?case by simp
next
  case (Cons c cs)
  then show ?case
    using parseNumber_not_NaN[of c]
    by (auto simp: truthy_num_def split: option.splits if_splits jsnum.splits)
qed

lemma spec_search_truthy: "spec_search g i col = Some v \<Longrightarrow> truthy_num v"
  by (auto simp: spec_search_def first_value_spec[symmetric] split: option.splits dest: first_value_truthy)

lemma lookup_value_assign:
  assumes "\<not> is_set m key" "i < length g" "g ! i = Some row"
  shows "lookup_value g i row col m key = assign m (key, spec_search g i col)"
proof (cases "first_value (drop (Suc col) row)")
  case None
  then show ?thesis using assms
    by (auto simp: lookup_value_def assign_def spec_search_def cells_at_def first_value_spec[symmetric]
        split: option.splits)
next
  case (Some v)
  then have "truthy_num v" by (rule first_value_truthy)
  then show ?thesis using assms Some
    by (auto simp: lookup_value_def assign_def spec_search_def cells_at_def first_value_spec[symmetric] is_set_def
        split: option.splits)
qed

lemma term_step_assign:
  assumes "i < length g" "g ! i = Some row"
  shows "term_step g i row col cv m tk =
    assign m (snd tk, if includes_str cv (fst tk) then spec_search g i col else None)"
proof (cases "is_set m (snd tk)")
  case True
  then show ?thesis by (auto simp: term_step_def assign_def split: prod.splits)
next
  case False
  then show ?thesis using lookup_value_assign[OF _ assms, of m "snd tk" col]
    by (auto simp: term_step_def split: prod.splits) (simp add: assign_def)
qed

lemma assign_set: "is_set m k \<Longrightarrow> is_set (assign m e) k \<and> assign m e k = m k"
  by (cases e) (auto simp: assign_def is_set_def split: option.splits)

lemma foldl_assign_set: "is_set m k \<Longrightarrow> foldl assign m evs k = m k"
  by (induction evs arbitrary: m) (auto simp: assign_set)

lemma foldl_assign:
  assumes "\<forall>(k', S) \<in> set evs. \<forall>v. S = Some v \<longrightarrow> truthy_num v"
  shows "foldl assign m evs k = (if is_set m k then m k
     else (case first_found [S. (k', S) \<leftarrow> evs, k' = k] of None \<Rightarrow> m k | Some v \<Rightarrow> Some v))"
  using assms
proof (induction evs arbitrary: m)
  case Nil
  then show ?case by simp
next
  case (Cons e evs)
  obtain k' S where e: "e = (k', S)" by (cases e)
  show ?case
  proof (cases "is_set m k")
    case True
    then show ?thesis using foldl_assign_set[of m k "e # evs"] by simp
  next
    case False
    note notset = this
    have IH: "foldl assign (assign m e) evs k = (if is_set (assign m e) k then (assign m e) k
        else (case first_found [S. (k', S) \<leftarrow> evs, k' = k] of None \<Rightarrow> (assign m e) k | Some v \<Rightarrow> Some v))"
      using Cons by auto
    show ?thesis
    proof (cases "k' = k")
      case True
      show ?thesis
      proof (cases S)
        case None
        then have "assign m e = m" using e by (simp add: assign_def)
        then show ?thesis using IH e True notset None by (simp cong: option.case_cong)
      next
        case (Some v)
        then have "truthy_num v" using Cons.prems e by auto
        then have "assign m e k = Some v" "is_set (assign m e) k"
          using e True notset Some by (auto simp: assign_def is_set_def)
        then show ?thesis using IH e True notset Some by (simp cong: option.case_cong)
      qed
    next
      case False
      then have "assign m e k = m k" "is_set (assign m e) k = is_set m k"
        using e by (auto simp: assign_def is_set_def split: option.splits)
      then show ?thesis using IH e False notset by (simp cong: option.case_cong)
    qed
  qed
qed

lemma foldl_concat_proj:
  assumes "\<And>x a. x \<in> set xs \<Longrightarrow> P (f a x) = foldl h (P a) (ev x)"
  shows "P (foldl f a xs) = foldl h (P a) (concat (map ev xs))"
  using assms by (induction xs arbitrary: a) simp_all

lemma foldl_frame:
  assumes "\<And>x a. x \<in> set xs \<Longrightarrow> P (f a x) = P a"
  shows "P (foldl f a xs) = P a"
  using assms by (induction xs arbitrary: a) simp_all

lemma foldl_assign_none:
  "(\<And>e. e \<in> set evs \<Longrightarrow> snd e = None) \<Longrightarrow> foldl assign m evs = m"
proof (induction evs arbitrary: m)
  case Nil then show ?case by simp
next
  case (Cons e evs)
  have "snd e = None" using Cons.prems by simp
  then have "assign m e = m" by (cases e) (simp add: assign_def)
  then show ?case using Cons by simp
qed

lemma includes_str_Nil: "t \<noteq> [] \<Longrightarrow> \<not> includes_str [] t"
  by simp

lemma foldl_term_step:
  assumes "i < length g" "g ! i = Some row" "col < length row"
    and ne: "\<And>t k. (t, k) \<in> set terms \<Longrightarrow> t \<noteq> []"
  shows "(if cell_text ns (row ! col) = [] then m
          else foldl (term_step g i row col (cell_text ns (row ! col))) m terms)
       = foldl assign m (cell_events ns terms g i col)"
proof -
  have cells: "cells_at g i ! col = row ! col" using assms by (simp add: cells_at_def)
  show ?thesis
  proof (cases "cell_text ns (row ! col) = []")
    case True
    have "foldl assign m (cell_events ns terms g i col) = m"
      by (rule foldl_assign_none) (use True ne cells in \<open>auto simp: cell_events_def\<close>)
    then show ?thesis using True by simp
  next
    case False
    have "foldl (term_step g i row col (cell_text ns (row ! col))) m terms
        = foldl assign m (cell_events ns terms g i col)"
      unfolding cell_events_def foldl_map cells
      by (rule arg_cong[where f = "\<lambda>f. foldl f m terms"])
         (auto simp: fun_eq_iff term_step_assign[OF assms(1,2)])
    then show ?thesis using False by simp
  qed
qed

lemma balance_terms_nonempty: "(t, k) \<in> set balanceSheetTerms \<Longrightarrow> t \<noteq> []"
  by (auto simp: balanceSheetTerms_def)

lemma income_terms_nonempty: "(t, k) \<in> set incomeTerms \<Longrightarrow> t \<noteq> []"
  by (auto simp: incomeTerms_def)

lemma cell_step_maps:
  assumes "i < length g" "g ! i = Some row" "col < length row"
  shows "balanceSheet (cell_step ns g i row r col)
           = foldl assign (balanceSheet r) (cell_events ns balanceSheetTerms g i col)"
    and "incomeStatement (cell_step ns g i row r col)
           = foldl assign (incomeStatement r) (cell_events ns incomeTerms g i col)"
    and "ratios (cell_step ns g i row r col) = ratios r"
  using foldl_term_step[OF assms, of balanceSheetTerms ns "balanceSheet r"]
        foldl_term_step[OF assms, of incomeTerms ns "incomeStatement r"]
        balance_terms_nonempty income_terms_nonempty
  by (auto simp: cell_step_def Let_def)

lemma row_step_maps:
  assumes "i < length g"
  shows "balanceSheet (row_step ns g r i)
           = foldl assign (balanceSheet r) (row_events ns balanceSheetTerms g i)"
    and "incomeStatement (row_step ns g r i)
           = foldl assign (incomeStatement r) (row_events ns incomeTerms g i)"
    and "ratios (row_step ns g r i) = ratios r"
proof -
  show "balanceSheet (row_step ns g r i)
           = foldl assign (balanceSheet r) (row_events ns balanceSheetTerms g i)"
  proof (cases "g ! i")
    case None
    then show ?thesis using assms by (simp add: row_step_def row_events_def cells_at_def)
  next
    case (Some row)
    have "balanceSheet (foldl (cell_step ns g i row) r [0 ..< length row])
        = foldl assign (balanceSheet r)
            (concat (map (cell_events ns balanceSheetTerms g i) [0 ..< length row]))"
      by (rule foldl_concat_proj) (simp add: cell_step_maps[OF assms Some])
    then show ?thesis using assms Some by (simp add: row_step_def row_events_def cells_at_def)
  qed
  show "incomeStatement (row_step ns g r i)
           = foldl assign (incomeStatement r) (row_events ns incomeTerms g i)"
  proof (cases "g ! i")
    case None
    then show ?thesis using assms by (simp add: row_step_def row_events_def cells_at_def)
  next
    case (Some row)
    have "incomeStatement (foldl (cell_step ns g i row) r [0 ..< length row])
        = foldl assign (incomeStatement r)
            (concat (map (cell_events ns incomeTerms g i) [0 ..< length row]))"
      by (rule foldl_concat_proj) (simp add: cell_step_maps[OF assms Some])
    then show ?thesis using assms Some by (simp add: row_step_def row_events_def cells_at_def)
  qed
  show "ratios (row_step ns g r i) = ratios r"
  proof (cases "g ! i")
    case None
    then show ?thesis by (simp add: row_step_def)
  next
    case (Some row)
    have "ratios (foldl (cell_step ns g i row) r [0 ..< length row]) = ratios r"
      by (rule foldl_frame) (simp add: cell_step_maps[OF assms Some])
    then show ?thesis using Some by (simp add: row_step_def)
  qed
qed

lemma scan_cells_maps:
  shows "balanceSheet (scan_cells ns g r)
           = foldl assign (balanceSheet r) (grid_events ns balanceSheetTerms g)"
    and "incomeStatement (scan_cells ns g r)
           = foldl assign (incomeStatement r) (grid_events ns incomeTerms g)"
    and "ratios (scan_cells ns g r) = ratios r"
proof -
  show "balanceSheet (scan_cells ns g r)
           = foldl assign (balanceSheet r) (grid_events ns balanceSheetTerms g)"
    unfolding scan_cells_def grid_events_def
    by (rule foldl_concat_proj) (simp add: row_step_maps)
  show "incomeStatement (scan_cells ns g r)
           = foldl assign (incomeStatement r) (grid_events ns incomeTerms g)"
    unfolding scan_cells_def grid_events_def
    by (rule foldl_concat_proj) (simp add: row_step_maps)
  have "ratios (foldl (row_step ns g) r [0 ..< length g]) = ratios r"
    by (rule foldl_frame) (simp add: row_step_maps)
  then show "ratios (scan_cells ns g r) = ratios r"
    by (simp add: scan_cells_def)
qed

lemma first_found_append:
  "first_found (xs @ ys) = (case first_found xs of None \<Rightarrow> first_found ys | Some v \<Rightarrow> Some v)"
  by (induction xs rule: first_found.induct) simp_all

lemma first_found_concat_cong:
  assumes "\<And>x. x \<in> set xs \<Longrightarrow> first_found (f x) = first_found (h x)"
  shows "first_found (concat (map f xs)) = first_found (concat (map h xs))"
  using assms by (induction xs) (simp_all add: first_found_append cong: option.case_cong)

lemma events_of_concat: "events_of k (concat xss) = concat (map (events_of k) xss)"
  by (induction xss) (simp_all add: events_of_def)

lemma grid_events_hits:
  "first_found (events_of k (grid_events ns terms g)) = first_found (spec_hits ns terms g k)"
proof -
  have cell: "first_found (events_of k (cell_events ns terms g i col))
      = first_found (concat (map (\<lambda>(term, key).
           if key = k \<and> includes_str (cell_text ns (cells_at g i ! col)) term
           then [spec_search g i col] else []) terms))" for i col
    unfolding events_of_def cell_events_def
    by (induction terms) (auto simp: first_found_append cong: option.case_cong)
  have row: "first_found (events_of k (row_events ns terms g i))
      = first_found (concat (map (\<lambda>col. concat (map (\<lambda>(term, key).
           if key = k \<and> includes_str (cell_text ns (cells_at g i ! col)) term
           then [spec_search g i col] else []) terms)) [0 ..< length (cells_at g i)]))" for i
    unfolding row_events_def events_of_concat map_map comp_def
    by (rule first_found_concat_cong) (rule cell)
  show ?thesis
    unfolding grid_events_def events_of_concat map_map comp_def spec_hits_def
    by (rule first_found_concat_cong) (rule row)
qed

lemma grid_events_truthy:
  "\<forall>(k', S) \<in> set (grid_events ns terms g). \<forall>v. S = Some v \<longrightarrow> truthy_num v"
  by (auto simp: grid_events_def row_events_def cell_events_def split: if_splits
      dest: spec_search_truthy)

lemma scan_first_match:
  "balanceSheet (scan_cells ns g r) k =
     (if is_set (balanceSheet r) k then balanceSheet r k
      else case first_found (spec_hits ns balanceSheetTerms g k) of
             None \<Rightarrow> balanceSheet r k | Some v \<Rightarrow> Some v)
   \<and> incomeStatement (scan_cells ns g r) k =
     (if is_set (incomeStatement r) k then incomeStatement r k
      else case first_found (spec_hits ns incomeTerms g k) of
             None \<Rightarrow> incomeStatement r k | Some v \<Rightarrow> Some v)"
  using foldl_assign[OF grid_events_truthy, where m = "balanceSheet r" and k = k
          and ns1 = ns and terms1 = balanceSheetTerms and g1 = g]
        foldl_assign[OF grid_events_truthy, where m = "incomeStatement r" and k = k
          and ns1 = ns and terms1 = incomeTerms and g1 = g]
  by (simp add: scan_cells_maps grid_events_hits events_of_def[symmetric])

lemma scan_keeps_set:
  "is_set (balanceSheet r) k \<Longrightarrow> balanceSheet (scan_cells ns g r) k = balanceSheet r k"
  "is_set (incomeStatement r) k \<Longrightarrow> incomeStatement (scan_cells ns g r) k = incomeStatement r k"
  using scan_first_match[of ns g r k] by simp_all

lemma scan_keeps_is_set:
  "is_set (balanceSheet r) k \<Longrightarrow> is_set (balanceSheet (scan_cells ns g r)) k"
  "is_set (incomeStatement r) k \<Longrightarrow> is_set (incomeStatement (scan_cells ns g r)) k"
  using scan_keeps_set[of r k ns g] by (simp_all add: is_set_def)

lemma derive_debtRatio_maps:
  "balanceSheet (derive_debtRatio ns r) = balanceSheet r"
  "incomeStatement (derive_debtRatio ns r) = incomeStatement r"
  "ratios (derive_debtRatio ns r) =
     (if is_set (balanceSheet r) ''totalAssets'' \<and> is_set (balanceSheet r) ''totalLiabilities''
      then (ratios r)(''debtRatio'' \<mapsto>
             toFixed2 ns (num_mul (num_div (num_at (balanceSheet r) ''totalLiabilities'')
                                           (num_at (balanceSheet r) ''totalAssets'')) (Fin 100)))
      else ratios r)"
  by (simp_all add: derive_debtRatio_def Let_def)

lemma derive_liquidity_maps:
  "balanceSheet (derive_liquidity ns r) = balanceSheet r"
  "incomeStatement (derive_liquidity ns r) = incomeStatement r"
  "ratios (derive_liquidity ns r) =
     (if is_set (balanceSheet r) ''currentAssets'' \<and> is_set (balanceSheet r) ''currentLiabilities''
      then (ratios r)
             (''currentRatio'' \<mapsto>
                toFixed2 ns (num_div (num_at (balanceSheet r) ''currentAssets'')
                                     (num_at (balanceSheet r) ''currentLiabilities'')),
              ''quickRatio'' \<mapsto>
                toFixed2 ns (num_div
                  (num_sub (num_at (balanceSheet r) ''currentAssets'')
                     (if is_set (balanceSheet r) ''inventory''
                      then num_at (balanceSheet r) ''inventory'' else Fin 0))
                  (num_at (balanceSheet r) ''currentLiabilities'')))
      else ratios r)"
  by (simp_all add: derive_liquidity_def Let_def)

lemma derive_roe_maps:
  "balanceSheet (derive_roe ns r) = balanceSheet r"
  "incomeStatement (derive_roe ns r) = incomeStatement r"
  "ratios (derive_roe ns r) =
     (if is_set (incomeStatement r) ''netProfit'' \<and> is_set (balanceSheet r) ''ownerEquity''
      then (ratios r)(''roe'' \<mapsto>
             toFixed2 ns (num_mul (num_div (num_at (incomeStatement r) ''netProfit'')
                                           (num_at (balanceSheet r) ''ownerEquity'')) (Fin 100)))
      else ratios r)"
  by (simp_all add: derive_roe_def)

lemma derive_ownerEquity_maps:
  "balanceSheet (derive_ownerEquity r) =
     (if is_set (balanceSheet r) ''totalAssets'' \<and> is_set (balanceSheet r) ''totalLiabilities''
         \<and> \<not> is_set (balanceSheet r) ''ownerEquity''
      then (balanceSheet r)(''ownerEquity'' \<mapsto>
             num_sub (num_at (balanceSheet r) ''totalAssets'') (num_at (balanceSheet r) ''totalLiabilities''))
      else balanceSheet r)"
  "incomeStatement (derive_ownerEquity r) = incomeStatement r"
  "ratios (derive_ownerEquity r) = ratios r"
  by (simp_all add: derive_ownerEquity_def Let_def)

lemmas derive_maps =
  derive_debtRatio_maps derive_liquidity_maps derive_roe_maps derive_ownerEquity_maps

lemma extract_incomeStatement:
  "incomeStatement (extractFinancialData ns g r) = incomeStatement (scan_cells ns g r)"
  by (simp add: extractFinancialData_def derive_maps)

lemma extract_balanceSheet:
  "balanceSheet (extractFinancialData ns g r) =
     (if is_set (balanceSheet (scan_cells ns g r)) ''totalAssets''
         \<and> is_set (balanceSheet (scan_cells ns g r)) ''totalLiabilities''
         \<and> \<not> is_set (balanceSheet (scan_cells ns g r)) ''ownerEquity''
      then (balanceSheet (scan_cells ns g r))(''ownerEquity'' \<mapsto>
             num_sub (num_at (balanceSheet (scan_cells ns g r)) ''totalAssets'')
                     (num_at (balanceSheet (scan_cells ns g r)) ''totalLiabilities''))
      else balanceSheet (scan_cells ns g r))"
  by (simp add: extractFinancialData_def derive_maps)

lemma extract_ratios:
  fixes ns g r
  defines "S \<equiv> scan_cells ns g r"
  defines "b \<equiv> balanceSheet S"
  defines "E \<equiv> extractFinancialData ns g r"
  shows "ratios E ''debtRatio'' =
       (if is_set b ''totalAssets'' \<and> is_set b ''totalLiabilities''
        then Some (toFixed2 ns (num_mul (num_div (num_at b ''totalLiabilities'')
                                                  (num_at b ''totalAssets'')) (Fin 100)))
        else ratios r ''debtRatio'')"
    and "ratios E ''currentRatio'' =
       (if is_set b ''currentAssets'' \<and> is_set b ''currentLiabilities''
        then Some (toFixed2 ns (num_div (num_at b ''currentAssets'') (num_at b ''currentLiabilities'')))
        else ratios r ''currentRatio'')"
    and "ratios E ''quickRatio'' =
       (if is_set b ''currentAssets'' \<and> is_set b ''currentLiabilities''
        then Some (toFixed2 ns (num_div
               (num_sub (num_at b ''currentAssets'')
                        (if is_set b ''inventory'' then num_at b ''inventory'' else Fin 0))
               (num_at b ''currentLiabilities'')))
        else ratios r ''quickRatio'')"
    and "ratios E ''roe'' =
       (if is_set (incomeStatement S) ''netProfit'' \<and> is_set b ''ownerEquity''
        then Some (toFixed2 ns (num_mul (num_div (num_at (incomeStatement S) ''netProfit'')
                                                  (num_at b ''ownerEquity'')) (Fin 100)))
        else ratios r ''roe'')"
  unfolding S_def b_def E_def
  by (simp_all add: extractFinancialData_def derive_maps scan_cells_maps(3))

lemma spec_hits_truthy:
  assumes "first_found (spec_hits ns terms g k) = Some v"
  shows "truthy_num v"
proof -
  have "\<And>xs. first_found xs = Some v \<Longrightarrow> Some v \<in> set xs"
  proof -
    fix xs :: "jsnum option list"
    show "first_found xs = Some v \<Longrightarrow> Some v \<in> set xs"
      by (induction xs rule: first_found.induct) auto
  qed
  then have "Some v \<in> set (spec_hits ns terms g k)" using assms by blast
  then show ?thesis
    by (auto simp: spec_hits_def split: if_splits dest: spec_search_truthy[OF sym])
qed

lemma scan_hit_is_set:
  assumes "first_found (spec_hits ns balanceSheetTerms g k) = Some v"
  shows "is_set (balanceSheet (scan_cells ns g r)) k"
  using scan_first_match[of ns g r k] assms spec_hits_truthy[OF assms]
  by (auto simp: is_set_def split: if_splits)

lemma scan_hit_is_set_income:
  assumes "first_found (spec_hits ns incomeTerms g k) = Some v"
  shows "is_set (incomeStatement (scan_cells ns g r)) k"
  using scan_first_match[of ns g r k] assms spec_hits_truthy[OF assms]
  by (auto simp: is_set_def split: if_splits)

lemma extract_keeps_is_set:
  assumes "is_set (balanceSheet (scan_cells ns g r)) k"
  shows "balanceSheet (extractFinancialData ns g r) k = balanceSheet (scan_cells ns g r) k"
  using assms by (auto simp: extract_balanceSheet)

lemma extract_keeps_set:
  assumes "is_set (balanceSheet r) k"
  shows "balanceSheet (extractFinancialData ns g r) k = balanceSheet r k"
  using extract_keeps_is_set[OF scan_keeps_is_set(1)[OF assms]] scan_keeps_set(1)[OF assms]
  by simp

lemma rescan_balanceSheet:
  "balanceSheet (scan_cells ns g (extractFinancialData ns g r))
     = balanceSheet (extractFinancialData ns g r)"
proof
  fix k
  let ?F = "extractFinancialData ns g r"
  show "balanceSheet (scan_cells ns g ?F) k = balanceSheet ?F k"
  proof (cases "first_found (spec_hits ns balanceSheetTerms g k)")
    case None
    then show ?thesis using scan_first_match[of ns g ?F k] by simp
  next
    case (Some v)
    have "is_set (balanceSheet (scan_cells ns g r)) k" using Some by (rule scan_hit_is_set)
    then have "is_set (balanceSheet ?F) k"
      using extract_keeps_is_set[of ns g r k] by (simp add: is_set_def)
    then show ?thesis by (rule scan_keeps_set)
  qed
qed

lemma rescan_incomeStatement:
  "incomeStatement (scan_cells ns g (extractFinancialData ns g r))
     = incomeStatement (extractFinancialData ns g r)"
proof
  fix k
  let ?F = "extractFinancialData ns g r"
  show "incomeStatement (scan_cells ns g ?F) k = incomeStatement ?F k"
  proof (cases "first_found (spec_hits ns incomeTerms g k)")
    case None
    then show ?thesis using scan_first_match[of ns g ?F k] by simp
  next
    case (Some v)
    have "is_set (incomeStatement (scan_cells ns g r)) k" using Some by (rule scan_hit_is_set_income)
    then have "is_set (incomeStatement ?F) k" by (simp add: extract_incomeStatement)
    then show ?thesis by (rule scan_keeps_set)
  qed
qed

lemma extract_twice_balanceSheet:
  "balanceSheet (extractFinancialData ns g (extractFinancialData ns g r))
     = balanceSheet (extractFinancialData ns g r)"
proof -
  let ?b = "balanceSheet (scan_cells ns g r)"
  let ?F = "balanceSheet (extractFinancialData ns g r)"
  let ?d = "num_sub (num_at ?b ''totalAssets'') (num_at ?b ''totalLiabilities'')"
  have F: "?F =
      (if is_set ?b ''totalAssets'' \<and> is_set ?b ''totalLiabilities'' \<and> \<not> is_set ?b ''ownerEquity''
       then ?b(''ownerEquity'' \<mapsto> ?d) else ?b)"
    by (rule extract_balanceSheet)
  have FF: "balanceSheet (extractFinancialData ns g (extractFinancialData ns g r)) =
      (if is_set ?F ''totalAssets'' \<and> is_set ?F ''totalLiabilities'' \<and> \<not> is_set ?F ''ownerEquity''
       then ?F(''ownerEquity'' \<mapsto> num_sub (num_at ?F ''totalAssets'') (num_at ?F ''totalLiabilities''))
       else ?F)"
    using extract_balanceSheet[of ns g "extractFinancialData ns g r"]
    by (simp only: rescan_balanceSheet)
  show ?thesis
  proof (cases "is_set ?b ''totalAssets'' \<and> is_set ?b ''totalLiabilities'' \<and> \<not> is_set ?b ''ownerEquity''")
    case True
    then have Fb: "?F = ?b(''ownerEquity'' \<mapsto> ?d)"
      using F by simp
    have same: "num_sub (num_at ?F ''totalAssets'') (num_at ?F ''totalLiabilities'') = ?d"
      by (simp add: Fb num_at_def)
    have "?F(''ownerEquity'' \<mapsto> ?d) = ?F"
      by (simp add: Fb)
    then show ?thesis unfolding FF same by simp
  next
    case False
    have Fb: "?F = ?b" by (subst F) (use False in \<open>simp only: if_False\<close>)
    show ?thesis unfolding FF unfolding Fb by (use False in \<open>simp only: if_False\<close>)
  qed
qed

text \<open>
  C1. The value the label scan leaves under a key that was not set before it is the result
  of the first successful search among the cells, taken in scan order, whose trimmed text
  contains a label of that key: the search takes the first cell strictly to the right in
  the same row that \<open>parseNumber\<close> turns into a number other than zero and, if there is
  none, the first such cell of the immediately following row from its left end. Cells that
  parse to zero or to no number are passed over; when no search succeeds the key is left
  as it was, absent in a new record. The derived metrics that follow the scan leave every
  entry of the income statement and every entry of the balance sheet other than
  \<open>ownerEquity\<close> as the scan left it.
\<close>

theorem extractor_first_match:
  "balanceSheet (scan_cells ns g r) k =
     (if is_set (balanceSheet r) k then balanceSheet r k
      else case first_found (spec_hits ns balanceSheetTerms g k) of
             None \<Rightarrow> balanceSheet r k | Some v \<Rightarrow> Some v)
   \<and> incomeStatement (scan_cells ns g r) k =
     (if is_set (incomeStatement r) k then incomeStatement r k
      else case first_found (spec_hits ns incomeTerms g k) of
             None \<Rightarrow> incomeStatement r k | Some v \<Rightarrow> Some v)
   \<and> incomeStatement (extractFinancialData ns g r) k = incomeStatement (scan_cells ns g r) k
   \<and> (k \<noteq> ''ownerEquity'' \<longrightarrow>
        balanceSheet (extractFinancialData ns g r) k = balanceSheet (scan_cells ns g r) k)"
  using scan_first_match[of ns g r k]
  by (simp add: extract_incomeStatement extract_balanceSheet)

lemmas hits_eval =
  spec_hits_def cells_at_def upt_rec balanceSheetTerms_def incomeTerms_def cell_text_def
  to_string_def truthy_def truthy_num_def trim_def is_space_def number_to_string_def
  dec_digits.simps starts_with_def spec_search_def spec_first_number_def is_nonzero_number_def
  parseNumber_def

theorem extractor_first_match_witness:
  "balanceSheet (extractFinancialData (\<lambda>x. dec_digits (nat \<lfloor>x\<rfloor>))
      [Some [JStr [39033, 30446], JStr [26399, 26411]],
       Some [JStr [36164, 20135, 24635, 35745], JNull, JNum (Fin 1500)]] new_result) ''totalAssets''
     = Some (Fin 1500)
   \<and> balanceSheet (extractFinancialData (\<lambda>x. dec_digits (nat \<lfloor>x\<rfloor>))
      [Some [JStr [39033, 30446], JStr [26399, 26411]],
       Some [JStr [36164, 20135, 24635, 35745], JNull, JStr []],
       Some [JNum (Fin 1500)]] new_result) ''totalAssets''
     = Some (Fin 1500)
   \<and> balanceSheet (extractFinancialData (\<lambda>x. dec_digits (nat \<lfloor>x\<rfloor>))
      [Some [JStr [36164, 20135, 24635, 35745], JNum (Fin 0), JStr [45]], None,
       Some [JNum (Fin 1500)]] new_result) ''totalAssets''
     = None"
proof -
  let ?ns = "\<lambda>x. dec_digits (nat \<lfloor>x\<rfloor>)"
  let ?g1 = "[Some [JStr [39033, 30446], JStr [26399, 26411]],
       Some [JStr [36164, 20135, 24635, 35745], JNull, JNum (Fin 1500)]]"
  let ?g2 = "[Some [JStr [39033, 30446], JStr [26399, 26411]],
       Some [JStr [36164, 20135, 24635, 35745], JNull, JStr []],
       Some [JNum (Fin 1500)]]"
  let ?g3 = "[Some [JStr [36164, 20135, 24635, 35745], JNum (Fin 0), JStr [45]], None,
       Some [JNum (Fin 1500)]]"
  have h1: "first_found (spec_hits ?ns balanceSheetTerms ?g1 ''totalAssets'') = Some (Fin 1500)"
    by (simp add: hits_eval)
  have h2: "first_found (spec_hits ?ns balanceSheetTerms ?g2 ''totalAssets'') = Some (Fin 1500)"
    by (simp add: hits_eval)
  have h3: "first_found (spec_hits ?ns balanceSheetTerms ?g3 ''totalAssets'') = None"
    by (simp add: hits_eval parseFloat_def starts_with_def unsigned_literal_def is_digit_def is_formatting_def)
  have e: "is_set (balanceSheet new_result) k = False" "balanceSheet new_result k = None" for k
    by (simp_all add: new_result_def is_set_def)
  show ?thesis
    using extractor_first_match[of ?ns ?g1 new_result "''totalAssets''"]
          extractor_first_match[of ?ns ?g2 new_result "''totalAssets''"]
          extractor_first_match[of ?ns ?g3 new_result "''totalAssets''"]
    unfolding h1 h2 h3 e by simp
qed

text \<open>
  C7. First match wins. A key that is set when extraction starts has the same value when it
  ends, whatever labels the grid holds, and every single label step leaves a set key
  alone, so a key is assigned at most once. Running the extraction again on the same grid
  changes no entry of the balance sheet or of the income statement.
\<close>

theorem label_matching_first_wins:
  "(is_set (balanceSheet r) k \<longrightarrow> balanceSheet (extractFinancialData ns g r) k = balanceSheet r k)
   \<and> (is_set (incomeStatement r) k \<longrightarrow>
        incomeStatement (extractFinancialData ns g r) k = incomeStatement r k)
   \<and> (is_set m k \<longrightarrow> term_step g i row col cellValue m tk k = m k)
   \<and> balanceSheet (extractFinancialData ns g (extractFinancialData ns g r))
        = balanceSheet (extractFinancialData ns g r)
   \<and> incomeStatement (extractFinancialData ns g (extractFinancialData ns g r))
        = incomeStatement (extractFinancialData ns g r)"
proof -
  have step: "is_set m k \<Longrightarrow> term_step g i row col cellValue m tk k = m k"
  proof (cases tk)
    case (Pair t key)
    assume set: "is_set m k"
    show ?thesis
    proof (cases "key = k")
      case True
      then show ?thesis using set Pair by (simp add: term_step_def)
    next
      case False
      then show ?thesis using Pair
        by (auto simp: term_step_def lookup_value_def Let_def split: option.splits)
    qed
  qed
  show ?thesis
    using step extract_keeps_set[of r k ns g] scan_keeps_set(2)[of r k ns g]
    by (simp add: extract_twice_balanceSheet extract_incomeStatement rescan_incomeStatement)
qed

theorem label_matching_first_wins_witness:
  "is_set (balanceSheet (new_result\<lparr>balanceSheet := [''totalAssets'' \<mapsto> Fin 100]\<rparr>)) ''totalAssets''
   \<and> balanceSheet (extractFinancialData (\<lambda>x. dec_digits (nat \<lfloor>x\<rfloor>))
        [Some [JStr [36164, 20135, 24635, 35745], JNull, JNum (Fin 1500)]]
        (new_result\<lparr>balanceSheet := [''totalAssets'' \<mapsto> Fin 100]\<rparr>)) ''totalAssets''
      = Some (Fin 100)"
proof -
  have s: "is_set (balanceSheet (new_result\<lparr>balanceSheet := [''totalAssets'' \<mapsto> Fin 100]\<rparr>))
      ''totalAssets''"
    by (simp add: is_set_def truthy_num_def)
  show ?thesis
    using s label_matching_first_wins[of "new_result\<lparr>balanceSheet := [''totalAssets'' \<mapsto> Fin 100]\<rparr>"
        "''totalAssets''" "\<lambda>x. dec_digits (nat \<lfloor>x\<rfloor>)"
        "[Some [JStr [36164, 20135, 24635, 35745], JNull, JNum (Fin 1500)]]"]
    by simp
qed

lemma is_set_nonzero: "is_set m k \<Longrightarrow> num_at m k \<noteq> Fin 0 \<and> num_at m k \<noteq> NaN"
  by (auto simp: is_set_def num_at_def truthy_num_def split: option.splits)

text \<open>
  The derived metrics in terms of the record as the label scan leaves it, which is what
  the four tests of the source read, one after the other.
\<close>

lemma derived_metrics_from_scan:
  assumes "ratio_inv r"
  shows "let S = scan_cells ns g r; E = extractFinancialData ns g r;
             b = balanceSheet S; p = incomeStatement S
         in ratios E ''debtRatio'' =
              (if is_set b ''totalAssets'' \<and> is_set b ''totalLiabilities''
               then Some (toFixed2 ns (num_mul (num_div (num_at b ''totalLiabilities'')
                                                         (num_at b ''totalAssets'')) (Fin 100)))
               else None)
          \<and> ratios E ''currentRatio'' =
              (if is_set b ''currentAssets'' \<and> is_set b ''currentLiabilities''
               then Some (toFixed2 ns (num_div (num_at b ''currentAssets'')
                                               (num_at b ''currentLiabilities'')))
               else None)
          \<and> ratios E ''quickRatio'' =
              (if is_set b ''currentAssets'' \<and> is_set b ''currentLiabilities''
               then Some (toFixed2 ns (num_div
                      (num_sub (num_at b ''currentAssets'')
                               (if is_set b ''inventory'' then num_at b ''inventory'' else Fin 0))
                      (num_at b ''currentLiabilities'')))
               else None)
          \<and> ratios E ''roe'' =
              (if is_set p ''netProfit'' \<and> is_set b ''ownerEquity''
               then Some (toFixed2 ns (num_mul (num_div (num_at p ''netProfit'')
                                                         (num_at b ''ownerEquity'')) (Fin 100)))
               else None)
          \<and> balanceSheet E ''ownerEquity'' =
              (if is_set b ''totalAssets'' \<and> is_set b ''totalLiabilities'' \<and> \<not> is_set b ''ownerEquity''
               then Some (num_sub (num_at b ''totalAssets'') (num_at b ''totalLiabilities''))
               else b ''ownerEquity'')
          \<and> (\<forall>k. (is_set b k \<longrightarrow> num_at b k \<noteq> Fin 0) \<and> (is_set p k \<longrightarrow> num_at p k \<noteq> Fin 0))
          \<and> ratio_inv E"
proof -
  let ?S = "scan_cells ns g r"
  let ?E = "extractFinancialData ns g r"
  let ?b = "balanceSheet ?S"
  let ?p = "incomeStatement ?S"
  have old: "\<not> (is_set ?b ''totalAssets'' \<and> is_set ?b ''totalLiabilities'') \<Longrightarrow> ratios r ''debtRatio'' = None"
    "\<not> (is_set ?b ''currentAssets'' \<and> is_set ?b ''currentLiabilities'') \<Longrightarrow> ratios r ''currentRatio'' = None"
    "\<not> (is_set ?b ''currentAssets'' \<and> is_set ?b ''currentLiabilities'') \<Longrightarrow> ratios r ''quickRatio'' = None"
    "\<not> (is_set ?p ''netProfit'' \<and> is_set ?b ''ownerEquity'') \<Longrightarrow> ratios r ''roe'' = None"
    using assms scan_keeps_is_set[of r _ ns g] unfolding ratio_inv_def by blast+
  have dr: "ratios ?E ''debtRatio'' =
              (if is_set ?b ''totalAssets'' \<and> is_set ?b ''totalLiabilities''
               then Some (toFixed2 ns (num_mul (num_div (num_at ?b ''totalLiabilities'')
                                                         (num_at ?b ''totalAssets'')) (Fin 100)))
               else None)"
    using old(1) by (auto simp: extract_ratios(1))
  have cr: "ratios ?E ''currentRatio'' =
              (if is_set ?b ''currentAssets'' \<and> is_set ?b ''currentLiabilities''
               then Some (toFixed2 ns (num_div (num_at ?b ''currentAssets'')
                                               (num_at ?b ''currentLiabilities'')))
               else None)"
    using old(2) by (auto simp: extract_ratios(2))
  have qr: "ratios ?E ''quickRatio'' =
              (if is_set ?b ''currentAssets'' \<and> is_set ?b ''currentLiabilities''
               then Some (toFixed2 ns (num_div
                      (num_sub (num_at ?b ''currentAssets'')
                               (if is_set ?b ''inventory'' then num_at ?b ''inventory'' else Fin 0))
                      (num_at ?b ''currentLiabilities'')))
               else None)"
    using old(3) by (auto simp: extract_ratios(3))
  have roe: "ratios ?E ''roe'' =
              (if is_set ?p ''netProfit'' \<and> is_set ?b ''ownerEquity''
               then Some (toFixed2 ns (num_mul (num_div (num_at ?p ''netProfit'')
                                                         (num_at ?b ''ownerEquity'')) (Fin 100)))
               else None)"
    using old(4) by (auto simp: extract_ratios(4))
  have oe: "balanceSheet ?E ''ownerEquity'' =
              (if is_set ?b ''totalAssets'' \<and> is_set ?b ''totalLiabilities'' \<and> \<not> is_set ?b ''ownerEquity''
               then Some (num_sub (num_at ?b ''totalAssets'') (num_at ?b ''totalLiabilities''))
               else ?b ''ownerEquity'')"
    by (simp add: extract_balanceSheet)
  have keep: "is_set ?b k \<Longrightarrow> is_set (balanceSheet ?E) k" for k
    using extract_keeps_is_set[of ns g r k] by (simp add: is_set_def)
  have inv: "ratio_inv ?E"
    unfolding ratio_inv_def dr cr qr roe extract_incomeStatement
    using keep by (auto split: if_splits)
  show ?thesis
    unfolding Let_def using dr cr qr roe oe inv is_set_nonzero by blast
qed

lemma debt_ratio_60:
  "num_mul (num_div (Fin 600) (Fin 1000)) (Fin 100) = Fin 60"
  "num_sub (Fin 1000) (Fin 600) = Fin 400"
  "toFixed2 ns (Fin 60) = [54, 48, 46, 48, 48]"
proof -
  have "round64 (3 / 5) = Fin (5404319552844595 / 2 ^ 53)"
    by (simp add: round64_eval)
  moreover have "round64 (5404319552844595 / 2 ^ 53 * 100) = Fin 60"
    by (simp add: round64_eval)
  ultimately show "num_mul (num_div (Fin 600) (Fin 1000)) (Fin 100) = Fin 60"
    by (simp add: num_div_def num_mul_def)
  show "num_sub (Fin 1000) (Fin 600) = Fin 400"
    by (simp add: num_sub_def round64_eval)
  show "toFixed2 ns (Fin 60) = [54, 48, 46, 48, 48]"
    by (simp add: toFixed2_def fixed_digits_def dec_digits.simps floor_rat_numeral Let_def)
qed


text \<open>
  The sheet of the example, with a third row for the net profit: total assets 1000,
  total liabilities 600, net profit 100, and no row for the owner's equity.
\<close>

lemma example_sheet_scan:
  fixes g :: grid
  defines "g \<equiv> [Some [JStr [36164, 20135, 24635, 35745], JNum (Fin 1000)],
         Some [JStr [36127, 20538, 21512, 35745], JNum (Fin 600)],
         Some [JStr [20928, 21033, 28070], JNum (Fin 100)]]"
  defines "S \<equiv> scan_cells (\<lambda>x. dec_digits (nat \<lfloor>x\<rfloor>)) g new_result"
  shows "balanceSheet S ''totalAssets'' = Some (Fin 1000)"
    and "balanceSheet S ''totalLiabilities'' = Some (Fin 600)"
    and "balanceSheet S ''ownerEquity'' = None"
    and "incomeStatement S ''netProfit'' = Some (Fin 100)"
proof -
  let ?ns = "(\<lambda>x. dec_digits (nat \<lfloor>x\<rfloor>))"
  have e: "is_set (balanceSheet new_result) k = False" "balanceSheet new_result k = None"
    "is_set (incomeStatement new_result) k = False" "incomeStatement new_result k = None" for k
    by (simp_all add: new_result_def is_set_def)
  have h1: "first_found (spec_hits ?ns balanceSheetTerms g ''totalAssets'') = Some (Fin 1000)"
    unfolding g_def by (simp add: hits_eval)
  have h2: "first_found (spec_hits ?ns balanceSheetTerms g ''totalLiabilities'') = Some (Fin 600)"
    unfolding g_def by (simp add: hits_eval)
  have h3: "first_found (spec_hits ?ns balanceSheetTerms g ''ownerEquity'') = None"
    unfolding g_def by (simp add: hits_eval)
  have h4: "first_found (spec_hits ?ns incomeTerms g ''netProfit'') = Some (Fin 100)"
    unfolding g_def by (simp add: hits_eval)
  show "balanceSheet S ''totalAssets'' = Some (Fin 1000)"
    and "balanceSheet S ''totalLiabilities'' = Some (Fin 600)"
    and "balanceSheet S ''ownerEquity'' = None"
    and "incomeStatement S ''netProfit'' = Some (Fin 100)"
    using scan_first_match[of ?ns g new_result "''totalAssets''"]
          scan_first_match[of ?ns g new_result "''totalLiabilities''"]
          scan_first_match[of ?ns g new_result "''ownerEquity''"]
          scan_first_match[of ?ns g new_result "''netProfit''"]
    unfolding h1 h2 h3 h4 e S_def by simp_all
qed

text \<open>
  C2. On a record whose ratios were written by this function (a new record, or the record
  of the sheets before), the returned record holds \<open>debtRatio\<close>, liabilities / assets *
  100 printed by \<open>toFixed(2)\<close>, exactly when its total assets and total liabilities are
  set, and \<open>currentRatio\<close> and \<open>quickRatio\<close> exactly when its current assets and current
  liabilities are set (a missing inventory counts as 0). It holds \<open>roe\<close> exactly when its
  net profit is set and the owner's equity was set by the label scan or before the call:
  the equity that this call infers as assets minus liabilities comes after \<open>roe\<close> and
  gives none. The equity is inferred exactly when assets and liabilities are set and the
  label scan left the equity unset. Apart from the inferred equity the returned record
  holds the base metrics as the label scan left them, and a set metric is not zero, so no
  denominator is.
\<close>

theorem derived_metrics_present_iff:
  assumes "ratio_inv r"
  shows "let S = scan_cells ns g r; E = extractFinancialData ns g r;
             b = balanceSheet E; p = incomeStatement E
         in ratios E ''debtRatio'' =
              (if is_set b ''totalAssets'' \<and> is_set b ''totalLiabilities''
               then Some (toFixed2 ns (num_mul (num_div (num_at b ''totalLiabilities'')
                                                         (num_at b ''totalAssets'')) (Fin 100)))
               else None)
          \<and> ratios E ''currentRatio'' =
              (if is_set b ''currentAssets'' \<and> is_set b ''currentLiabilities''
               then Some (toFixed2 ns (num_div (num_at b ''currentAssets'')
                                               (num_at b ''currentLiabilities'')))
               else None)
          \<and> ratios E ''quickRatio'' =
              (if is_set b ''currentAssets'' \<and> is_set b ''currentLiabilities''
               then Some (toFixed2 ns (num_div
                      (num_sub (num_at b ''currentAssets'')
                               (if is_set b ''inventory'' then num_at b ''inventory'' else Fin 0))
                      (num_at b ''currentLiabilities'')))
               else None)
          \<and> ratios E ''roe'' =
              (if is_set p ''netProfit'' \<and> is_set (balanceSheet S) ''ownerEquity''
               then Some (toFixed2 ns (num_mul (num_div (num_at p ''netProfit'')
                                                         (num_at b ''ownerEquity'')) (Fin 100)))
               else None)
          \<and> b ''ownerEquity'' =
              (if is_set b ''totalAssets'' \<and> is_set b ''totalLiabilities''
                  \<and> \<not> is_set (balanceSheet S) ''ownerEquity''
               then Some (num_sub (num_at b ''totalAssets'') (num_at b ''totalLiabilities''))
               else balanceSheet S ''ownerEquity'')
          \<and> (\<forall>k. k \<noteq> ''ownerEquity'' \<longrightarrow> b k = balanceSheet S k)
          \<and> p = incomeStatement S
          \<and> (\<forall>k. (is_set b k \<longrightarrow> num_at b k \<noteq> Fin 0) \<and> (is_set p k \<longrightarrow> num_at p k \<noteq> Fin 0))
          \<and> ratio_inv E"
proof -
  let ?S = "scan_cells ns g r"
  let ?E = "extractFinancialData ns g r"
  let ?s = "balanceSheet ?S"
  let ?b = "balanceSheet ?E"
  let ?p = "incomeStatement ?E"
  note old = derived_metrics_from_scan[OF assms, of ns g, unfolded Let_def]
  have p: "?p = incomeStatement ?S" by (rule extract_incomeStatement)
  have same: "k \<noteq> ''ownerEquity'' \<Longrightarrow> ?b k = ?s k" for k
    by (simp add: extract_balanceSheet)
  have set_same: "k \<noteq> ''ownerEquity'' \<Longrightarrow> is_set ?b k = is_set ?s k" for k
    using same[of k] by (simp add: is_set_def)
  have num_same: "k \<noteq> ''ownerEquity'' \<Longrightarrow> num_at ?b k = num_at ?s k" for k
    using same[of k] by (simp add: num_at_def)
  have oe_same: "is_set ?s ''ownerEquity'' \<Longrightarrow> num_at ?b ''ownerEquity'' = num_at ?s ''ownerEquity''"
    using extract_keeps_is_set[of ns g r "''ownerEquity''"] by (simp add: num_at_def)
  have dr: "ratios ?E ''debtRatio'' =
              (if is_set ?b ''totalAssets'' \<and> is_set ?b ''totalLiabilities''
               then Some (toFixed2 ns (num_mul (num_div (num_at ?b ''totalLiabilities'')
                                                         (num_at ?b ''totalAssets'')) (Fin 100)))
               else None)"
    using old[THEN conjunct1] by (simp add: set_same num_same)
  have cr: "ratios ?E ''currentRatio'' =
              (if is_set ?b ''currentAssets'' \<and> is_set ?b ''currentLiabilities''
               then Some (toFixed2 ns (num_div (num_at ?b ''currentAssets'')
                                               (num_at ?b ''currentLiabilities'')))
               else None)"
    using old[THEN conjunct2, THEN conjunct1] by (simp add: set_same num_same)
  have qr: "ratios ?E ''quickRatio'' =
              (if is_set ?b ''currentAssets'' \<and> is_set ?b ''currentLiabilities''
               then Some (toFixed2 ns (num_div
                      (num_sub (num_at ?b ''currentAssets'')
                               (if is_set ?b ''inventory'' then num_at ?b ''inventory'' else Fin 0))
                      (num_at ?b ''currentLiabilities'')))
               else None)"
    using old[THEN conjunct2, THEN conjunct2, THEN conjunct1] by (simp add: set_same num_same)
  have roe: "ratios ?E ''roe'' =
              (if is_set ?p ''netProfit'' \<and> is_set ?s ''ownerEquity''
               then Some (toFixed2 ns (num_mul (num_div (num_at ?p ''netProfit'')
                                                         (num_at ?b ''ownerEquity'')) (Fin 100)))
               else None)"
    using old[THEN conjunct2, THEN conjunct2, THEN conjunct2, THEN conjunct1] oe_same
    by (simp add: p)
  have oe: "?b ''ownerEquity'' =
              (if is_set ?b ''totalAssets'' \<and> is_set ?b ''totalLiabilities''
                  \<and> \<not> is_set ?s ''ownerEquity''
               then Some (num_sub (num_at ?b ''totalAssets'') (num_at ?b ''totalLiabilities''))
               else ?s ''ownerEquity'')"
    using old[THEN conjunct2, THEN conjunct2, THEN conjunct2, THEN conjunct2, THEN conjunct1]
    by (simp add: set_same num_same)
  have sm: "\<forall>k. k \<noteq> ''ownerEquity'' \<longrightarrow> ?b k = ?s k"
    using same by blast
  have nz: "\<forall>k. (is_set ?b k \<longrightarrow> num_at ?b k \<noteq> Fin 0) \<and> (is_set ?p k \<longrightarrow> num_at ?p k \<noteq> Fin 0)"
    using is_set_nonzero by blast
  have inv: "ratio_inv ?E"
    using old[THEN conjunct2, THEN conjunct2, THEN conjunct2, THEN conjunct2, THEN conjunct2,
              THEN conjunct2] .
  show ?thesis
    unfolding Let_def
    by (rule conjI[OF dr conjI[OF cr conjI[OF qr conjI[OF roe conjI[OF oe conjI[OF sm
          conjI[OF p conjI[OF nz inv]]]]]]]])
qed

theorem derived_metrics_present_iff_witness:
  "ratio_inv new_result
   \<and> ratios (extractFinancialData (\<lambda>x. dec_digits (nat \<lfloor>x\<rfloor>))
        [Some [JStr [36164, 20135, 24635, 35745], JNum (Fin 1000)],
         Some [JStr [36127, 20538, 21512, 35745], JNum (Fin 600)],
         Some [JStr [20928, 21033, 28070], JNum (Fin 100)]] new_result) ''debtRatio''
      = Some [54, 48, 46, 48, 48]
   \<and> balanceSheet (extractFinancialData (\<lambda>x. dec_digits (nat \<lfloor>x\<rfloor>))
        [Some [JStr [36164, 20135, 24635, 35745], JNum (Fin 1000)],
         Some [JStr [36127, 20538, 21512, 35745], JNum (Fin 600)],
         Some [JStr [20928, 21033, 28070], JNum (Fin 100)]] new_result) ''ownerEquity''
      = Some (Fin 400)
   \<and> ratios (extractFinancialData (\<lambda>x. dec_digits (nat \<lfloor>x\<rfloor>))
        [Some [JStr [36164, 20135, 24635, 35745], JNum (Fin 1000)],
         Some [JStr [36127, 20538, 21512, 35745], JNum (Fin 600)],
         Some [JStr [20928, 21033, 28070], JNum (Fin 100)]] new_result) ''currentRatio''
      = None"
proof -
  let ?ns = "(\<lambda>x. dec_digits (nat \<lfloor>x\<rfloor>))"
  let ?g = "[Some [JStr [36164, 20135, 24635, 35745], JNum (Fin 1000)],
         Some [JStr [36127, 20538, 21512, 35745], JNum (Fin 600)],
         Some [JStr [20928, 21033, 28070], JNum (Fin 100)]]"
  let ?s = "balanceSheet (scan_cells ?ns ?g new_result)"
  let ?b = "balanceSheet (extractFinancialData ?ns ?g new_result)"
  have inv: "ratio_inv new_result"
    by (simp add: ratio_inv_def new_result_def)
  note T = derived_metrics_present_iff[OF inv, of ?ns ?g, unfolded Let_def]
  have same: "?b ''totalAssets'' = ?s ''totalAssets''" "?b ''totalLiabilities'' = ?s ''totalLiabilities''"
    "?b ''currentAssets'' = ?s ''currentAssets''"
    using T[THEN conjunct2, THEN conjunct2, THEN conjunct2, THEN conjunct2, THEN conjunct2,
            THEN conjunct1] by simp_all
  have h: "first_found (spec_hits ?ns balanceSheetTerms ?g ''currentAssets'') = None"
    by (simp add: hits_eval)
  have ca: "?s ''currentAssets'' = None"
    using scan_first_match[of ?ns ?g new_result "''currentAssets''"]
    unfolding h by (simp add: new_result_def is_set_def)
  have s: "is_set ?b ''totalAssets''" "is_set ?b ''totalLiabilities''"
    "\<not> is_set ?s ''ownerEquity''" "\<not> is_set ?b ''currentAssets''"
    "num_at ?b ''totalAssets'' = Fin 1000" "num_at ?b ''totalLiabilities'' = Fin 600"
    by (simp_all add: is_set_def num_at_def same ca example_sheet_scan truthy_num_def)
  have dr: "ratios (extractFinancialData ?ns ?g new_result) ''debtRatio'' = Some [54, 48, 46, 48, 48]"
    using T[THEN conjunct1] by (simp add: s debt_ratio_60)
  have cr: "ratios (extractFinancialData ?ns ?g new_result) ''currentRatio'' = None"
    using T[THEN conjunct2, THEN conjunct1] by (simp add: s)
  have oe: "?b ''ownerEquity'' = Some (Fin 400)"
    using T[THEN conjunct2, THEN conjunct2, THEN conjunct2, THEN conjunct2, THEN conjunct1]
    by (simp add: s debt_ratio_60)
  show ?thesis using inv dr oe cr by simp
qed

text \<open>
  The claim as stated fails for \<open>roe\<close>: on the sheet of the example with a row for the
  net profit, the returned record has the net profit 100 and the owner's equity 400, both
  set and the equity not zero, and still no \<open>roe\<close>, because the equity was inferred after
  the test for \<open>roe\<close>.
\<close>

theorem roe_absent_with_inferred_equity:
  "incomeStatement (extractFinancialData (\<lambda>x. dec_digits (nat \<lfloor>x\<rfloor>))
        [Some [JStr [36164, 20135, 24635, 35745], JNum (Fin 1000)],
         Some [JStr [36127, 20538, 21512, 35745], JNum (Fin 600)],
         Some [JStr [20928, 21033, 28070], JNum (Fin 100)]] new_result) ''netProfit''
      = Some (Fin 100)
   \<and> balanceSheet (extractFinancialData (\<lambda>x. dec_digits (nat \<lfloor>x\<rfloor>))
        [Some [JStr [36164, 20135, 24635, 35745], JNum (Fin 1000)],
         Some [JStr [36127, 20538, 21512, 35745], JNum (Fin 600)],
         Some [JStr [20928, 21033, 28070], JNum (Fin 100)]] new_result) ''ownerEquity''
      = Some (Fin 400)
   \<and> is_set (incomeStatement (extractFinancialData (\<lambda>x. dec_digits (nat \<lfloor>x\<rfloor>))
        [Some [JStr [36164, 20135, 24635, 35745], JNum (Fin 1000)],
         Some [JStr [36127, 20538, 21512, 35745], JNum (Fin 600)],
         Some [JStr [20928, 21033, 28070], JNum (Fin 100)]] new_result)) ''netProfit''
   \<and> is_set (balanceSheet (extractFinancialData (\<lambda>x. dec_digits (nat \<lfloor>x\<rfloor>))
        [Some [JStr [36164, 20135, 24635, 35745], JNum (Fin 1000)],
         Some [JStr [36127, 20538, 21512, 35745], JNum (Fin 600)],
         Some [JStr [20928, 21033, 28070], JNum (Fin 100)]] new_result)) ''ownerEquity''
   \<and> ratios (extractFinancialData (\<lambda>x. dec_digits (nat \<lfloor>x\<rfloor>))
        [Some [JStr [36164, 20135, 24635, 35745], JNum (Fin 1000)],
         Some [JStr [36127, 20538, 21512, 35745], JNum (Fin 600)],
         Some [JStr [20928, 21033, 28070], JNum (Fin 100)]] new_result) ''roe''
      = None"
proof -
  let ?ns = "(\<lambda>x. dec_digits (nat \<lfloor>x\<rfloor>))"
  let ?g = "[Some [JStr [36164, 20135, 24635, 35745], JNum (Fin 1000)],
         Some [JStr [36127, 20538, 21512, 35745], JNum (Fin 600)],
         Some [JStr [20928, 21033, 28070], JNum (Fin 100)]]"
  let ?s = "balanceSheet (scan_cells ?ns ?g new_result)"
  let ?E = "extractFinancialData ?ns ?g new_result"
  have s: "is_set ?s ''totalAssets''" "is_set ?s ''totalLiabilities''" "\<not> is_set ?s ''ownerEquity''"
    "num_at ?s ''totalAssets'' = Fin 1000" "num_at ?s ''totalLiabilities'' = Fin 600"
    by (simp_all add: is_set_def num_at_def example_sheet_scan truthy_num_def)
  have np: "incomeStatement ?E ''netProfit'' = Some (Fin 100)"
    by (simp add: extract_incomeStatement example_sheet_scan)
  have oe: "balanceSheet ?E ''ownerEquity'' = Some (Fin 400)"
    by (simp add: extract_balanceSheet s debt_ratio_60)
  have r0: "ratios new_result ''roe'' = None"
    by (simp add: new_result_def)
  have roe: "ratios ?E ''roe'' = None"
    unfolding extract_ratios(4) using s(3) r0 by simp
  show ?thesis
    using np oe roe by (simp add: is_set_def truthy_num_def)
qed
section \<open>Properties of the pattern matcher\<close>



text \<open>A greedy repetition of a character class gives back one character at a time.\<close>

lemma rx_match_star_chr:
  "rx_match (Star (Chr P)) (s, c)
     = map (\<lambda>k. (drop k s, c)) (rev [0 ..< Suc (length (takeWhile P s))])"
proof (induction s)
  case Nil
  then show ?case by simp
next
  case (Cons x xs)
  show ?case
  proof (cases "P x")
    case False
    then show ?thesis by simp
  next
    case True
    have "map (\<lambda>k. (drop k (x # xs), c)) (rev [0 ..< Suc (Suc (length (takeWhile P xs)))])
        = map (\<lambda>k. (drop k xs, c)) (rev [0 ..< Suc (length (takeWhile P xs))]) @ [(x # xs, c)]"
      by (simp add: upt_conv_Cons[of 0] map_Suc_upt[symmetric] rev_map del: upt_Suc)
    then show ?thesis using True Cons by simp
  qed
qed

section \<open>Properties of the Document Field-Filling Engine\<close>

lemmas rx_eval = replace_global_def match_here_def seqs_def liti_def lit_def label_rx_def escapeRegex_def
  is_syntax_char_def canon_def rx_chr_def not_chr_def rx_plus_def rx_space_def rx_colon_def any_char_def
  cap_text_def is_space_def is_digit_def escapeXml_def replace_char_def has_value_def field_text_def
  blank_char_def

lemma escapeXml_no_markup: "c \<in> set (escapeXml s) \<Longrightarrow> c \<notin> {60, 62, 34, 39}"
  by (auto simp: escapeXml_def replace_char_def split: if_splits)





text \<open>
  C8. Every inserted value passes through \<open>escapeXml\<close>, which leaves none of the
  characters \<open><\<close>, \<open>>\<close>, \<open>"\<close> and \<open>'\<close> and turns each \<open>&\<close> into an entity
  (\<open>escapeXml_no_markup\<close>), and \<open>escapeRegex\<close> makes a label read as a literal
  (\<open>pattern_literal_escapeRegex\<close>). But the colon-label pass and the trailing-underscore
  pass hand the escaped value to \<open>replace\<close> inside a replacement text, where a dollar
  sign is not literal. With the credit amount \<open>$100\<close> and a body holding the text run
  \<open><w:t>\<close>, the label U+6388 U+4FE1 U+91D1 U+989D, a full-width colon, four underscores
  and \<open></w:t>\<close>, the colon-label pass reads \<open>$1\<close> as the first capture, the opening
  tag: the underscores give way to \<open><w:t>00\<close>, markup that no escaping has touched, and
  not to \<open>$100\<close>.
\<close>

theorem dollar_in_value_inserts_markup:
  "replaceLabeledContent [60, 119, 58, 112, 62, 60, 119, 58, 114, 62, 60, 119, 58, 116, 62, 25480, 20449, 37329, 39069, 65306, 95, 95, 95, 95, 60, 47, 119, 58, 116, 62, 60, 47, 119, 58, 114, 62, 60, 47, 119, 58, 112, 62] [''creditAmount'' \<mapsto> [36, 49, 48, 48]] = [60, 119, 58, 112, 62, 60, 119, 58, 114, 62, 60, 119, 58, 116, 62, 25480, 20449, 37329, 39069, 65306, 60, 119, 58, 116, 62, 48, 48, 60, 47, 119, 58, 116, 62, 60, 47, 119, 58, 114, 62, 60, 47, 119, 58, 112, 62]
   \<and> escapeXml [36, 49, 48, 48] = [36, 49, 48, 48]"
  by (simp add: replaceLabeledContent_def colonLabelMap_def colon_step_def colon_rx_def rx_eval)

lemma starts_with_drop_includes:
  "includes_str s t \<longleftrightarrow> (\<exists>i\<le>length s. starts_with (drop i s) t)"
proof (induction s)
  case Nil
  then show ?case by (auto simp: starts_with_def)
next
  case (Cons c cs)
  show ?case
  proof
    assume "includes_str (c # cs) t"
    then consider "starts_with (c # cs) t" | "includes_str cs t" by auto
    then show "\<exists>i\<le>length (c # cs). starts_with (drop i (c # cs)) t"
    proof cases
      case 1
      then show ?thesis by (intro exI[of _ 0]) simp
    next
      case 2
      then obtain i where "i \<le> length cs" "starts_with (drop i cs) t" using Cons by blast
      then show ?thesis by (intro exI[of _ "Suc i"]) simp
    qed
  next
    assume "\<exists>i\<le>length (c # cs). starts_with (drop i (c # cs)) t"
    then obtain i where i: "i \<le> length (c # cs)" "starts_with (drop i (c # cs)) t" by blast
    show "includes_str (c # cs) t"
    proof (cases i)
      case 0
      then show ?thesis using i by simp
    next
      case (Suc j)
      then have "j \<le> length cs" "starts_with (drop j cs) t" using i by simp_all
      then show ?thesis using Cons by auto
    qed
  qed
qed

lemma last_index_of_None:
  "last_index_of s t = None \<longleftrightarrow> \<not> includes_str s t"
  unfolding last_index_of_def find_None_iff starts_with_drop_includes
  by (auto simp: less_Suc_eq_le simp del: upt_Suc)

lemma last_index_of_Some:
  assumes "last_index_of s t = Some p"
  shows "p \<le> length s \<and> starts_with (drop p s) t \<and> (\<forall>q. p < q \<longrightarrow> q \<le> length s \<longrightarrow> \<not> starts_with (drop q s) t)"
proof -
  define xs where "xs = rev [0 ..< Suc (length s)]"
  from assms obtain i where i: "i < length xs" "starts_with (drop (xs ! i) s) t" "p = xs ! i"
    "\<forall>j<i. \<not> starts_with (drop (xs ! j) s) t"
    unfolding last_index_of_def find_Some_iff xs_def[symmetric] by blast
  have len: "length xs = Suc (length s)" by (simp add: xs_def)
  have nth: "xs ! j = length s - j" if "j \<le> length s" for j
    using that unfolding xs_def by (simp add: rev_nth del: upt_Suc)
  have p: "p = length s - i" "i \<le> length s" using i nth[of i] len by simp_all
  have "\<not> starts_with (drop q s) t" if "p < q" "q \<le> length s" for q
  proof -
    have "length s - q < i" using that p by linarith
    then have "\<not> starts_with (drop (xs ! (length s - q)) s) t" using i(4) by blast
    then show ?thesis using nth[of "length s - q"] that by simp
  qed
  then show ?thesis using i(2) p nth[of i] by auto
qed

text \<open>
  C3. The heuristic strategy runs the three inline passes and then
  \<open>appendFilledContent\<close> on their result. When that result holds the closing tag of the
  body, the structured appendix is spliced in once, right before the last occurrence of
  the tag, whatever the passes changed; when it holds no closing tag the result of the
  passes is returned as it is, without an appendix. The appendix is the page break, the
  title and an empty paragraph; the company subsection when the company name, the credit
  code or the legal representative has a value, the financial subsection when the total
  assets or the revenue has a value, the credit subsection when the credit type or the
  credit amount has a value, each of them its heading, an empty paragraph, one line
  \<open>label\<close>\<open>:\<close>\<open>value\<close>\<open>unit\<close> for each of its fields that has a value and an empty
  paragraph; then for each narrative field, in the fixed order, nothing if the field is
  empty and otherwise its heading, an empty paragraph, one indented paragraph for each
  line that is not blank and an empty paragraph; and at the end an empty paragraph and
  the right-aligned report date.
\<close>

theorem appendix_spliced_before_body_end:
  "(let m = replaceBlankFields (replaceLabeledContent (replaceTableCells xml data) data) data;
        out = generateWithSmartReplacement today data xml
    in (last_index_of m body_end = None \<longleftrightarrow> \<not> includes_str m body_end)
     \<and> (last_index_of m body_end = None \<longrightarrow> out = m)
     \<and> (\<forall>p. last_index_of m body_end = Some p \<longrightarrow>
           out = take p m @ createFilledContentSection today data @ drop p m
           \<and> p \<le> length m \<and> starts_with (drop p m) body_end
           \<and> (\<forall>q. p < q \<longrightarrow> q \<le> length m \<longrightarrow> \<not> starts_with (drop q m) body_end)))
   \<and> (rx_search placeholder_test_rx [] xml = None \<longrightarrow>
        generateDocument today data xml
          = BySmartReplacement (generateWithSmartReplacement today data xml))
   \<and> createFilledContentSection today data = join_lines (filled_sections today data)
   \<and> filled_sections today data =
       [page_break, createParagraph summary_title True AlignCenter, blank_paragraph]
       @ (if has_value data ''companyName'' \<or> has_value data ''creditCode'' \<or> has_value data ''legalRep''
          then [createParagraph company_heading True AlignLeft, blank_paragraph]
               @ item_paragraphs data (companyInfo @ [(business_scope_label, ''businessScope'', [])])
               @ [blank_paragraph]
          else [])
       @ (if has_value data ''totalAssetsEnd'' \<or> has_value data ''revenueCurrent''
          then [createParagraph financial_heading True AlignLeft, blank_paragraph]
               @ item_paragraphs data financialInfo @ [blank_paragraph]
          else [])
       @ (if has_value data ''creditType'' \<or> has_value data ''creditAmount''
          then [createParagraph credit_heading True AlignLeft, blank_paragraph]
               @ item_paragraphs data creditInfo @ [blank_paragraph]
          else [])
       @ concat (map (narrative_paragraphs data) textSections)
       @ [blank_paragraph, createParagraph (report_date_label @ formatDate today) False AlignRight]
   \<and> item_paragraphs data [] = []
   \<and> (\<forall>label fld unit items. item_paragraphs data ((label, fld, unit) # items) =
          (if has_value data fld
           then [createParagraph (label @ [65306] @ field_text data fld @ unit) False AlignLeft]
           else [])
          @ item_paragraphs data items)
   \<and> (\<forall>title fld. has_value data fld \<longrightarrow>
          narrative_paragraphs data (title, fld) =
            [createParagraph title True AlignLeft, blank_paragraph]
            @ map (\<lambda>line. createParagraph ([32, 32, 32, 32] @ line) False AlignLeft)
                  (filter (\<lambda>l. trim l \<noteq> []) (split_lines (field_text data fld)))
            @ [blank_paragraph])
   \<and> (\<forall>title fld. \<not> has_value data fld \<longrightarrow> narrative_paragraphs data (title, fld) = [])"
proof -
  let ?m = "replaceBlankFields (replaceLabeledContent (replaceTableCells xml data) data) data"
  have out: "generateWithSmartReplacement today data xml = appendFilledContent today ?m data"
    by (simp add: generateWithSmartReplacement_def)
  have a: "last_index_of ?m body_end = None \<longrightarrow> generateWithSmartReplacement today data xml = ?m"
    by (simp add: out appendFilledContent_def)
  have b: "last_index_of ?m body_end = Some p \<longrightarrow>
           generateWithSmartReplacement today data xml
             = take p ?m @ createFilledContentSection today data @ drop p ?m
           \<and> p \<le> length ?m \<and> starts_with (drop p ?m) body_end
           \<and> (\<forall>q. p < q \<longrightarrow> q \<le> length ?m \<longrightarrow> \<not> starts_with (drop q ?m) body_end)" for p
    using last_index_of_Some[of ?m body_end p] by (simp add: out appendFilledContent_def)
  have c: "filled_sections today data =
       [page_break, createParagraph summary_title True AlignCenter, blank_paragraph]
       @ (if has_value data ''companyName'' \<or> has_value data ''creditCode'' \<or> has_value data ''legalRep''
          then [createParagraph company_heading True AlignLeft, blank_paragraph]
               @ item_paragraphs data (companyInfo @ [(business_scope_label, ''businessScope'', [])])
               @ [blank_paragraph]
          else [])
       @ (if has_value data ''totalAssetsEnd'' \<or> has_value data ''revenueCurrent''
          then [createParagraph financial_heading True AlignLeft, blank_paragraph]
               @ item_paragraphs data financialInfo @ [blank_paragraph]
          else [])
       @ (if has_value data ''creditType'' \<or> has_value data ''creditAmount''
          then [createParagraph credit_heading True AlignLeft, blank_paragraph]
               @ item_paragraphs data creditInfo @ [blank_paragraph]
          else [])
       @ concat (map (narrative_paragraphs data) textSections)
       @ [blank_paragraph, createParagraph (report_date_label @ formatDate today) False AlignRight]"
    by (simp add: filled_sections_def item_paragraphs_def)
  have d: "item_paragraphs data [] = []"
    "\<forall>label fld unit items. item_paragraphs data ((label, fld, unit) # items) =
          (if has_value data fld
           then [createParagraph (label @ [65306] @ field_text data fld @ unit) False AlignLeft]
           else [])
          @ item_paragraphs data items"
    by (simp_all add: item_paragraphs_def)
  have e: "\<forall>title fld. has_value data fld \<longrightarrow>
          narrative_paragraphs data (title, fld) =
            [createParagraph title True AlignLeft, blank_paragraph]
            @ map (\<lambda>line. createParagraph ([32, 32, 32, 32] @ line) False AlignLeft)
                  (filter (\<lambda>l. trim l \<noteq> []) (split_lines (field_text data fld)))
            @ [blank_paragraph]"
    "\<forall>title fld. \<not> has_value data fld \<longrightarrow> narrative_paragraphs data (title, fld) = []"
    by (simp_all add: narrative_paragraphs_def)
  have f: "rx_search placeholder_test_rx [] xml = None \<longrightarrow>
        generateDocument today data xml
          = BySmartReplacement (generateWithSmartReplacement today data xml)"
    by (simp add: generateDocument_def)
  have g: "createFilledContentSection today data = join_lines (filled_sections today data)"
    by (simp add: createFilledContentSection_def)
  have h: "(last_index_of ?m body_end = None \<longleftrightarrow> \<not> includes_str ?m body_end)
     \<and> (last_index_of ?m body_end = None \<longrightarrow> generateWithSmartReplacement today data xml = ?m)
     \<and> (\<forall>p. last_index_of ?m body_end = Some p \<longrightarrow>
           generateWithSmartReplacement today data xml
             = take p ?m @ createFilledContentSection today data @ drop p ?m
           \<and> p \<le> length ?m \<and> starts_with (drop p ?m) body_end
           \<and> (\<forall>q. p < q \<longrightarrow> q \<le> length ?m \<longrightarrow> \<not> starts_with (drop q ?m) body_end))"
    using a b last_index_of_None[of ?m body_end] by blast
  show ?thesis
    unfolding Let_def
    by (rule conjI[OF h conjI[OF f conjI[OF g conjI[OF c conjI[OF d(1) conjI[OF d(2)
          conjI[OF e(1) e(2)]]]]]]])
qed

lemmas pass_eval =
  replaceTableCells_def tableLabelMap_def table_step_def table_rx_def table_replacer_def
  replaceLabeledContent_def colonLabelMap_def colon_step_def colon_rx_def
  replaceBlankFields_def blankPatterns_def blank_step_def blank_rx_def

lemma passes_no_body:
  "replaceBlankFields (replaceLabeledContent (replaceTableCells [60, 119, 58, 100, 111, 99, 117, 109, 101, 110, 116, 62, 60, 119, 58, 98, 111, 100, 121, 47, 62, 60, 47, 119, 58, 100, 111, 99, 117, 109, 101, 110, 116, 62]
      [''companyName'' \<mapsto> [88]]) [''companyName'' \<mapsto> [88]]) [''companyName'' \<mapsto> [88]]
    = [60, 119, 58, 100, 111, 99, 117, 109, 101, 110, 116, 62, 60, 119, 58, 98, 111, 100, 121, 47, 62, 60, 47, 119, 58, 100, 111, 99, 117, 109, 101, 110, 116, 62]"
  by (simp add: pass_eval rx_eval)

lemma passes_registered_capital:
  "replaceBlankFields (replaceLabeledContent (replaceTableCells [60, 119, 58, 98, 111, 100, 121, 62, 60, 119, 58, 112, 47, 62, 60, 47, 119, 58, 98, 111, 100, 121, 62]
      [''registeredCapital'' \<mapsto> [49, 48, 48]]) [''registeredCapital'' \<mapsto> [49, 48, 48]])
      [''registeredCapital'' \<mapsto> [49, 48, 48]]
    = [60, 119, 58, 98, 111, 100, 121, 62, 60, 119, 58, 112, 47, 62, 60, 47, 119, 58, 98, 111, 100, 121, 62]"
  by (simp add: pass_eval rx_eval)

lemma appendix_registered_capital:
  "filled_sections today [''registeredCapital'' \<mapsto> [49, 48, 48]]
    = [page_break, createParagraph summary_title True AlignCenter, blank_paragraph,
       blank_paragraph, createParagraph (report_date_label @ formatDate today) False AlignRight]"
  by (simp add: filled_sections_def has_value_def narrative_paragraphs_def textSections_def)

text \<open>
  The claim as stated fails in two ways. On a body without the closing tag there is no
  appendix: for the document \<open><w:document><w:body/></w:document>\<close> and the company
  name \<open>X\<close> the heuristic strategy returns the document unchanged. And the data
  subsections are not always part of the appendix: for the body
  \<open><w:body><w:p/></w:body>\<close> and a context that holds nothing but the registered
  capital \<open>100\<close>, the appendix is the page break, the title, two empty paragraphs and the
  report date, with no company subsection and no line for the capital.
\<close>

theorem appendix_not_as_claimed:
  "generateDocument (2026, 11, 2) [''companyName'' \<mapsto> [88]] [60, 119, 58, 100, 111, 99, 117, 109, 101, 110, 116, 62, 60, 119, 58, 98, 111, 100, 121, 47, 62, 60, 47, 119, 58, 100, 111, 99, 117, 109, 101, 110, 116, 62] = BySmartReplacement [60, 119, 58, 100, 111, 99, 117, 109, 101, 110, 116, 62, 60, 119, 58, 98, 111, 100, 121, 47, 62, 60, 47, 119, 58, 100, 111, 99, 117, 109, 101, 110, 116, 62]
   \<and> \<not> includes_str [60, 119, 58, 100, 111, 99, 117, 109, 101, 110, 116, 62, 60, 119, 58, 98, 111, 100, 121, 47, 62, 60, 47, 119, 58, 100, 111, 99, 117, 109, 101, 110, 116, 62] summary_title
   \<and> generateDocument (2026, 11, 2) [''registeredCapital'' \<mapsto> [49, 48, 48]] [60, 119, 58, 98, 111, 100, 121, 62, 60, 119, 58, 112, 47, 62, 60, 47, 119, 58, 98, 111, 100, 121, 62]
       = BySmartReplacement ([60, 119, 58, 98, 111, 100, 121, 62, 60, 119, 58, 112, 47, 62]
           @ join_lines [page_break, createParagraph summary_title True AlignCenter, blank_paragraph,
               blank_paragraph,
               createParagraph (report_date_label @ formatDate (2026, 11, 2)) False AlignRight]
           @ body_end)"
proof -
  have a: "generateDocument (2026, 11, 2) [''companyName'' \<mapsto> [88]] [60, 119, 58, 100, 111, 99, 117, 109, 101, 110, 116, 62, 60, 119, 58, 98, 111, 100, 121, 47, 62, 60, 47, 119, 58, 100, 111, 99, 117, 109, 101, 110, 116, 62] = BySmartReplacement [60, 119, 58, 100, 111, 99, 117, 109, 101, 110, 116, 62, 60, 119, 58, 98, 111, 100, 121, 47, 62, 60, 47, 119, 58, 100, 111, 99, 117, 109, 101, 110, 116, 62]"
    by (simp add: generateDocument_def placeholder_test_rx_def rx_eval
      generateWithSmartReplacement_def passes_no_body appendFilledContent_def
      last_index_of_def body_end_def starts_with_def upt_rec)
  have b: "\<not> includes_str [60, 119, 58, 100, 111, 99, 117, 109, 101, 110, 116, 62, 60, 119, 58, 98, 111, 100, 121, 47, 62, 60, 47, 119, 58, 100, 111, 99, 117, 109, 101, 110, 116, 62] summary_title"
    by (simp add: starts_with_def summary_title_def)
  have l: "last_index_of [60, 119, 58, 98, 111, 100, 121, 62, 60, 119, 58, 112, 47, 62, 60, 47, 119, 58, 98, 111, 100, 121, 62] body_end = Some 14"
    by (simp add: last_index_of_def body_end_def starts_with_def upt_rec)
  have t: "rx_search placeholder_test_rx [] [60, 119, 58, 98, 111, 100, 121, 62, 60, 119, 58, 112, 47, 62, 60, 47, 119, 58, 98, 111, 100, 121, 62] = None"
    by (simp add: placeholder_test_rx_def rx_eval)
  have c: "generateDocument (2026, 11, 2) [''registeredCapital'' \<mapsto> [49, 48, 48]] [60, 119, 58, 98, 111, 100, 121, 62, 60, 119, 58, 112, 47, 62, 60, 47, 119, 58, 98, 111, 100, 121, 62]
       = BySmartReplacement ([60, 119, 58, 98, 111, 100, 121, 62, 60, 119, 58, 112, 47, 62]
           @ join_lines [page_break, createParagraph summary_title True AlignCenter, blank_paragraph,
               blank_paragraph,
               createParagraph (report_date_label @ formatDate (2026, 11, 2)) False AlignRight]
           @ body_end)"
    unfolding generateDocument_def generateWithSmartReplacement_def passes_registered_capital
      appendFilledContent_def l t createFilledContentSection_def appendix_registered_capital
    by (simp add: body_end_def)
  show ?thesis by (rule conjI[OF a conjI[OF b c]])
qed

lemma passes_with_body:
  "replaceBlankFields (replaceLabeledContent (replaceTableCells [60, 119, 58, 98, 111, 100, 121, 62, 60, 119, 58, 112, 47, 62, 60, 47, 119, 58, 98, 111, 100, 121, 62]
      [''companyName'' \<mapsto> [88]]) [''companyName'' \<mapsto> [88]]) [''companyName'' \<mapsto> [88]]
    = [60, 119, 58, 98, 111, 100, 121, 62, 60, 119, 58, 112, 47, 62, 60, 47, 119, 58, 98, 111, 100, 121, 62]"
  by (simp add: pass_eval rx_eval)

theorem appendix_spliced_before_body_end_witness:
  "last_index_of [60, 119, 58, 98, 111, 100, 121, 62, 60, 119, 58, 112, 47, 62, 60, 47, 119, 58, 98, 111, 100, 121, 62] body_end = Some 14
   \<and> generateWithSmartReplacement (2026, 11, 2) [''companyName'' \<mapsto> [88]] [60, 119, 58, 98, 111, 100, 121, 62, 60, 119, 58, 112, 47, 62, 60, 47, 119, 58, 98, 111, 100, 121, 62]
      = [60, 119, 58, 98, 111, 100, 121, 62, 60, 119, 58, 112, 47, 62] @ createFilledContentSection (2026, 11, 2) [''companyName'' \<mapsto> [88]] @ body_end"
proof -
  have l: "last_index_of [60, 119, 58, 98, 111, 100, 121, 62, 60, 119, 58, 112, 47, 62, 60, 47, 119, 58, 98, 111, 100, 121, 62] body_end = Some 14"
    by (simp add: last_index_of_def body_end_def starts_with_def upt_rec)
  show ?thesis
    using appendix_spliced_before_body_end[of "[60, 119, 58, 98, 111, 100, 121, 62, 60, 119, 58, 112, 47, 62, 60, 47, 119, 58, 98, 111, 100, 121, 62]" "[''companyName'' \<mapsto> [88]]" "(2026, 11, 2)"]
    unfolding Let_def passes_with_body using l by (simp add: body_end_def)
qed

section \<open>Properties of the Template Analyzer\<close>


lemma take_minus_suffix: "s = a @ b \<Longrightarrow> take (length s - length b) s = a"
  by simp













section \<open>Properties of the Business-Record Parser\<close>

text \<open>All the places where a greedy run of any character can be followed by Q, last one first.\<close>

lemma star_any_then_chr:
  "concat (map (rx_match (Seq (Chr Q) Eps)) (rx_match (Star any_char) (s, c)))
     = map (\<lambda>k. (drop (Suc k) s, c)) (filter (\<lambda>k. Q (s ! k)) (rev [0 ..< length s]))"
proof (induction s)
  case Nil
  then show ?case by (simp add: any_char_def)
next
  case (Cons x xs)
  have "rev [0 ..< length (x # xs)] = map Suc (rev [0 ..< length xs]) @ [0]"
    by (simp add: upt_conv_Cons[of 0] map_Suc_upt[symmetric] rev_map del: upt_Suc)
  then have rhs: "map (\<lambda>k. (drop (Suc k) (x # xs), c)) (filter (\<lambda>k. Q ((x # xs) ! k)) (rev [0 ..< length (x # xs)]))
      = map (\<lambda>k. (drop (Suc k) xs, c)) (filter (\<lambda>k. Q (xs ! k)) (rev [0 ..< length xs]))
        @ (if Q x then [(xs, c)] else [])"
    by (simp add: filter_map comp_def del: upt_Suc)
  have "rx_match (Star any_char) (x # xs, c) = rx_match (Star any_char) (xs, c) @ [(x # xs, c)]"
    by (simp add: any_char_def)
  then show ?case using Cons rhs by (simp del: upt_Suc)
qed


lemma last_match_index:
  "(case filter (\<lambda>k. Q (xs ! k)) (rev [0 ..< length xs]) of
      [] \<Rightarrow> \<forall>z\<in>set xs. \<not> Q z
    | k # ks \<Rightarrow> k < length xs \<and> take (Suc k) xs = rev (dropWhile (\<lambda>c. \<not> Q c) (rev xs)))"
proof (induction xs rule: rev_induct)
  case Nil
  then show ?case by simp
next
  case (snoc y ys)
  have cong: "filter (\<lambda>k. Q ((ys @ [y]) ! k)) (rev [0 ..< length ys])
      = filter (\<lambda>k. Q (ys ! k)) (rev [0 ..< length ys])"
    by (rule filter_cong) (auto simp: nth_append)
  show ?case
  proof (cases "Q y")
    case True
    then show ?thesis by simp
  next
    case False
    show ?thesis
    proof (cases "filter (\<lambda>k. Q (ys ! k)) (rev [0 ..< length ys])")
      case Nil
      then show ?thesis using False snoc cong by simp
    next
      case (Cons k ks)
      then show ?thesis using False snoc cong by simp
    qed
  qed
qed

lemma match_brace:
  "map_option fst (match_here brace_rx s) = (case s of
       [] \<Rightarrow> None
     | x # xs \<Rightarrow> if x = 123 \<and> 125 \<in> set xs
                 then Some (123 # rev (dropWhile (\<lambda>c. c \<noteq> 125) (rev xs))) else None)"
proof (cases s)
  case Nil
  then show ?thesis by (simp add: match_here_def brace_rx_def seqs_def rx_chr_def)
next
  case (Cons x xs)
  show ?thesis
  proof (cases "x = 123")
    case False
    then show ?thesis using Cons by (simp add: match_here_def brace_rx_def seqs_def rx_chr_def)
  next
    case True
    let ?ks = "filter (\<lambda>k. xs ! k = 125) (rev [0 ..< length xs])"
    have m: "rx_match brace_rx (s, Map.empty) = map (\<lambda>k. (drop (Suc k) xs, Map.empty)) ?ks"
      using True Cons star_any_then_chr[where Q = "\<lambda>c. c = 125" and s = xs and c = Map.empty]
      by (simp add: brace_rx_def seqs_def rx_chr_def del: rx_match.simps(5) upt_Suc)
    show ?thesis
    proof (cases ?ks)
      case Nil
      then have "125 \<notin> set xs" using last_match_index[where Q = "\<lambda>c. c = 125" and xs = xs] by auto
      then show ?thesis using Nil m Cons True by (simp add: match_here_def del: upt_Suc)
    next
      case (Cons k ks)
      then have k: "k < length xs" "take (Suc k) xs = rev (dropWhile (\<lambda>c. c \<noteq> 125) (rev xs))"
        using last_match_index[where Q = "\<lambda>c. c = 125" and xs = xs] by simp_all
      have "xs ! k = 125" using Cons filter_eq_ConsD[of "\<lambda>k. xs ! k = 125"] by fastforce
      then have in_xs: "125 \<in> set xs" using k(1) nth_mem by metis
      have "s = (123 # take (Suc k) xs) @ drop (Suc k) xs"
        using True \<open>s = x # xs\<close> by simp
      then have "take (length s - length (drop (Suc k) xs)) s = 123 # take (Suc k) xs"
        by (rule take_minus_suffix)
      then show ?thesis
        using Cons m \<open>s = x # xs\<close> True k(2) in_xs by (simp add: match_here_def del: upt_Suc)
    qed
  qed
qed

lemma outer_brace_span_Cons:
  "outer_brace_span (x # xs) = (if x = 123
     then (if 125 \<in> set xs then Some (123 # rev (dropWhile (\<lambda>c. c \<noteq> 125) (rev xs))) else None)
     else outer_brace_span xs)"
proof (cases "x = 123")
  case False
  then show ?thesis by (simp add: outer_brace_span_def)
next
  case True
  show ?thesis
  proof (cases "125 \<in> set xs")
    case False
    then show ?thesis using True by (simp add: outer_brace_span_def)
  next
    case in_xs: True
    have "dropWhile (\<lambda>c. c \<noteq> 125) (rev xs @ [123]) = dropWhile (\<lambda>c. c \<noteq> 125) (rev xs) @ [123]"
      by (rule dropWhile_append1[of 125]) (use in_xs in simp_all)
    then show ?thesis using True in_xs by (simp add: outer_brace_span_def)
  qed
qed

lemma outer_brace_span_None:
  assumes "125 \<notin> set s"
  shows "outer_brace_span s = None"
proof -
  have "125 \<notin> set (tl (dropWhile (\<lambda>c. c \<noteq> 123) s))"
    using assms by (metis list.sel(2) list.set_sel(2) set_dropWhileD)
  then show ?thesis by (simp add: outer_brace_span_def)
qed

lemma search_brace:
  "map_option (\<lambda>(pre, m, rest, c). m) (rx_search brace_rx pre s) = outer_brace_span s"
proof (induction s arbitrary: pre)
  case Nil
  have "match_here brace_rx [] = None"
    using match_brace[of "[]"] by simp
  then show ?case by (simp add: outer_brace_span_def)
next
  case (Cons x xs)
  show ?case
  proof (cases "match_here brace_rx (x # xs)")
    case None
    then have no: "\<not> (x = 123 \<and> 125 \<in> set xs)"
      using match_brace[of "x # xs"] by (auto split: if_splits)
    have "outer_brace_span (x # xs) = outer_brace_span xs"
      using no outer_brace_span_None[of xs] by (auto simp: outer_brace_span_Cons)
    then show ?thesis using None Cons by simp
  next
    case (Some r)
    obtain m rest c where r: "r = (m, rest, c)" by (cases r)
    have "Some m = outer_brace_span (x # xs)"
      using match_brace[of "x # xs"] Some r by (auto simp: outer_brace_span_Cons split: if_splits)
    then show ?thesis using Some r by simp
  qed
qed

lemma business_keys:
  "map fst business_patterns =
     [''companyName'', ''creditCode'', ''legalRep'', ''registeredCapital'', ''establishDate'',
      ''registeredAddress'', ''businessScope'', ''industry'', ''companyType'']"
  by (simp add: business_patterns_def)

lemma foldl_business_step:
  assumes "distinct (map fst pats)"
  shows "foldl (business_step text) info pats key = (case map_of pats key of
       None \<Rightarrow> info key
     | Some pattern \<Rightarrow>
         (case rx_search pattern [] text of
            None \<Rightarrow> info key
          | Some (pre, m, rest, c) \<Rightarrow> Some (trim (cap_text c 1))))"
  using assms
proof (induction pats arbitrary: info)
  case Nil
  then show ?case by simp
next
  case (Cons kp pats)
  obtain k p where kp: "kp = (k, p)" by (cases kp)
  have notin: "k \<notin> fst ` set pats" using Cons.prems kp by simp
  have IH: "foldl (business_step text) (business_step text info kp) pats key = (case map_of pats key of
       None \<Rightarrow> business_step text info kp key
     | Some pattern \<Rightarrow>
         (case rx_search pattern [] text of
            None \<Rightarrow> business_step text info kp key
          | Some (pre, m, rest, c) \<Rightarrow> Some (trim (cap_text c 1))))"
    using Cons by simp
  have step: "business_step text info kp key =
      (if key = k then (case rx_search p [] text of
            None \<Rightarrow> info key
          | Some (pre, m, rest, c) \<Rightarrow> Some (trim (cap_text c 1)))
       else info key)"
    using kp by (simp add: business_step_def split: option.splits prod.splits)
  show ?case
  proof (cases "key = k")
    case True
    then have "map_of pats key = None" using notin by (simp add: map_of_eq_None_iff)
    then show ?thesis unfolding foldl_Cons IH step using kp True by simp
  next
    case False
    then show ?thesis unfolding foldl_Cons IH step using kp by simp
  qed
qed

lemma parseBusinessInfoFromText_key:
  "parseBusinessInfoFromText text key = (case map_of business_patterns key of
          None \<Rightarrow> None
        | Some pattern \<Rightarrow>
            (case rx_search pattern [] text of
               None \<Rightarrow> None
             | Some (pre, m, rest, c) \<Rightarrow> Some (trim (cap_text c 1))))"
  unfolding parseBusinessInfoFromText_def
  by (subst foldl_business_step) (simp_all add: business_keys)

text \<open>
  C9. The parser looks for the span from the first opening brace to the last closing brace
  after it and hands it to \<open>JSON.parse\<close>; what that returns is returned as it is. When
  there is no such span, or \<open>JSON.parse\<close> throws, the result is the record of the text
  fallback, which holds, for each of the nine keys, the trimmed first capture of the
  first match of the key's pattern when the pattern matches, and no entry for the key when
  it does not.
\<close>

theorem business_record_parser:
  "(\<forall>span info. outer_brace_span text = Some span \<and> json_parse span = Some info \<longrightarrow>
       parseBusinessInfo json_parse text = FromJson info)
   \<and> (outer_brace_span text = None \<or> (\<exists>span. outer_brace_span text = Some span \<and> json_parse span = None) \<longrightarrow>
       parseBusinessInfo json_parse text = FromText (parseBusinessInfoFromText text))
   \<and> (\<forall>key. parseBusinessInfoFromText text key = (case map_of business_patterns key of
          None \<Rightarrow> None
        | Some pattern \<Rightarrow>
            (case rx_search pattern [] text of
               None \<Rightarrow> None
             | Some (pre, m, rest, c) \<Rightarrow> Some (trim (cap_text c 1)))))
   \<and> map fst business_patterns =
       [''companyName'', ''creditCode'', ''legalRep'', ''registeredCapital'', ''establishDate'',
        ''registeredAddress'', ''businessScope'', ''industry'', ''companyType'']"
proof -
  have span: "map_option (\<lambda>(pre, m, rest, c). m) (rx_search brace_rx [] text) = outer_brace_span text"
    by (rule search_brace)
  have a: "outer_brace_span text = Some span \<Longrightarrow> json_parse span = Some info \<Longrightarrow>
       parseBusinessInfo json_parse text = FromJson info" for span info
    using span by (auto simp: parseBusinessInfo_def split: option.splits)
  have b: "outer_brace_span text = None \<or> (\<exists>span. outer_brace_span text = Some span \<and> json_parse span = None) \<Longrightarrow>
       parseBusinessInfo json_parse text = FromText (parseBusinessInfoFromText text)"
    using span by (auto simp: parseBusinessInfo_def split: option.splits)
  have c: "parseBusinessInfoFromText text key = (case map_of business_patterns key of
          None \<Rightarrow> None
        | Some pattern \<Rightarrow>
            (case rx_search pattern [] text of
               None \<Rightarrow> None
             | Some (pre, m, rest, c) \<Rightarrow> Some (trim (cap_text c 1))))" for key
    by (rule parseBusinessInfoFromText_key)
  have A: "\<forall>span info. outer_brace_span text = Some span \<and> json_parse span = Some info \<longrightarrow>
       parseBusinessInfo json_parse text = FromJson info"
    using a by blast
  have B: "outer_brace_span text = None \<or> (\<exists>span. outer_brace_span text = Some span \<and> json_parse span = None) \<longrightarrow>
       parseBusinessInfo json_parse text = FromText (parseBusinessInfoFromText text)"
    using b by blast
  have C: "\<forall>key. parseBusinessInfoFromText text key = (case map_of business_patterns key of
          None \<Rightarrow> None
        | Some pattern \<Rightarrow>
            (case rx_search pattern [] text of
               None \<Rightarrow> None
             | Some (pre, m, rest, c) \<Rightarrow> Some (trim (cap_text c 1))))"
    using c by blast
  show ?thesis
    by (rule conjI[OF A conjI[OF B conjI[OF C business_keys]]])
qed


lemma rx_search_eval:
  "rx_search r pre [] = (case match_here r [] of
       None \<Rightarrow> None | Some (m, rest, c) \<Rightarrow> Some (pre, m, rest, c))"
  "rx_search r pre (x # xs) = (case match_here r (x # xs) of
       None \<Rightarrow> rx_search r (pre @ [x]) xs
     | Some (m, rest, c) \<Rightarrow> Some (pre, m, rest, c))"
  by simp_all

theorem business_record_parser_witness:
  "outer_brace_span [79, 67, 82, 58, 32, 123, 34, 99, 111, 109, 112, 97, 110, 121, 78, 97, 109, 101, 34, 58, 34, 65, 34, 125, 32, 101, 110, 100] = Some [123, 34, 99, 111, 109, 112, 97, 110, 121, 78, 97, 109, 101, 34, 58, 34, 65, 34, 125]
   \<and> parseBusinessInfo (\<lambda>s. if s = [123, 34, 99, 111, 109, 112, 97, 110, 121, 78, 97, 109, 101, 34, 58, 34, 65, 34, 125] then Some (7 :: nat) else None) [79, 67, 82, 58, 32, 123, 34, 99, 111, 109, 112, 97, 110, 121, 78, 97, 109, 101, 34, 58, 34, 65, 34, 125, 32, 101, 110, 100] = FromJson 7
   \<and> outer_brace_span [20225, 19994, 21517, 31216, 65306, 30002, 20844, 21496, 10, 20449, 29992, 20195, 30721, 58, 32, 57, 49, 97, 98, 10] = None
   \<and> parseBusinessInfo (\<lambda>s. if s = [123, 34, 99, 111, 109, 112, 97, 110, 121, 78, 97, 109, 101, 34, 58, 34, 65, 34, 125] then Some (7 :: nat) else None) [20225, 19994, 21517, 31216, 65306, 30002, 20844, 21496, 10, 20449, 29992, 20195, 30721, 58, 32, 57, 49, 97, 98, 10]
       = FromText (parseBusinessInfoFromText [20225, 19994, 21517, 31216, 65306, 30002, 20844, 21496, 10, 20449, 29992, 20195, 30721, 58, 32, 57, 49, 97, 98, 10])
   \<and> parseBusinessInfoFromText [20225, 19994, 21517, 31216, 65306, 30002, 20844, 21496, 10, 20449, 29992, 20195, 30721, 58, 32, 57, 49, 97, 98, 10] ''companyName'' = Some [30002, 20844, 21496]
   \<and> parseBusinessInfoFromText [20225, 19994, 21517, 31216, 65306, 30002, 20844, 21496, 10, 20449, 29992, 20195, 30721, 58, 32, 57, 49, 97, 98, 10] ''creditCode'' = Some [57, 49, 97, 98]
   \<and> parseBusinessInfoFromText [20225, 19994, 21517, 31216, 65306, 30002, 20844, 21496, 10, 20449, 29992, 20195, 30721, 58, 32, 57, 49, 97, 98, 10] ''legalRep'' = None"
proof -
  let ?jp = "\<lambda>s. if s = [123, 34, 99, 111, 109, 112, 97, 110, 121, 78, 97, 109, 101, 34, 58, 34, 65, 34, 125] then Some (7 :: nat) else None"
  let ?t1 = "[79, 67, 82, 58, 32, 123, 34, 99, 111, 109, 112, 97, 110, 121, 78, 97, 109, 101, 34, 58, 34, 65, 34, 125, 32, 101, 110, 100]"
  let ?t2 = "[20225, 19994, 21517, 31216, 65306, 30002, 20844, 21496, 10, 20449, 29992, 20195, 30721, 58, 32, 57, 49, 97, 98, 10]"
  have s1: "outer_brace_span ?t1 = Some [123, 34, 99, 111, 109, 112, 97, 110, 121, 78, 97, 109, 101, 34, 58, 34, 65, 34, 125]"
    by (simp add: outer_brace_span_def)
  have s2: "outer_brace_span ?t2 = None"
    by (simp add: outer_brace_span_def)
  have m: "map_of business_patterns ''companyName'' = Some companyName_rx"
    "map_of business_patterns ''creditCode'' = Some creditCode_rx"
    "map_of business_patterns ''legalRep'' = Some legalRep_rx"
    by (simp_all add: business_patterns_def)
  have r1: "rx_search companyName_rx [] ?t2 \<noteq> None
      \<and> trim (cap_text (snd (snd (snd (the (rx_search companyName_rx [] ?t2))))) 1) = [30002, 20844, 21496]"
    by (simp add: companyName_rx_def rest_of_line_def rx_eval trim_def)
  have r2: "rx_search creditCode_rx [] ?t2 \<noteq> None
      \<and> trim (cap_text (snd (snd (snd (the (rx_search creditCode_rx [] ?t2))))) 1) = [57, 49, 97, 98]"
    by (simp add: creditCode_rx_def rx_eval trim_def)
  have r3: "rx_search legalRep_rx [] ?t2 = None"
    by (simp add: legalRep_rx_def rest_of_line_def rx_eval)
  note T1 = business_record_parser[of ?t1 ?jp]
  note T2 = business_record_parser[of ?t2 ?jp]
  have jp: "?jp [123, 34, 99, 111, 109, 112, 97, 110, 121, 78, 97, 109, 101, 34, 58, 34, 65, 34, 125] = Some 7" by simp
  have w1: "parseBusinessInfo ?jp ?t1 = FromJson 7"
    using T1[THEN conjunct1, THEN spec, THEN spec, THEN mp, OF conjI[OF s1 jp]] .
  have w2: "parseBusinessInfo ?jp ?t2 = FromText (parseBusinessInfoFromText ?t2)"
    using T2[THEN conjunct2, THEN conjunct1, THEN mp, OF disjI1[OF s2]] .
  note K = T2[THEN conjunct2, THEN conjunct2, THEN conjunct1, THEN spec]
  obtain pre1 m1 rest1 c1 where f1: "rx_search companyName_rx [] ?t2 = Some (pre1, m1, rest1, c1)"
    using r1 by (cases "rx_search companyName_rx [] ?t2") auto
  obtain pre2 m2 rest2 c2 where f2: "rx_search creditCode_rx [] ?t2 = Some (pre2, m2, rest2, c2)"
    using r2 by (cases "rx_search creditCode_rx [] ?t2") auto
  have w3: "parseBusinessInfoFromText ?t2 ''companyName'' = Some [30002, 20844, 21496]"
    unfolding K[of "''companyName''"] m(1) option.case f1 prod.case using r1 f1 by simp
  have w4: "parseBusinessInfoFromText ?t2 ''creditCode'' = Some [57, 49, 97, 98]"
    unfolding K[of "''creditCode''"] m(2) option.case f2 prod.case using r2 f2 by simp
  have w5: "parseBusinessInfoFromText ?t2 ''legalRep'' = None"
    unfolding K[of "''legalRep''"] m(3) option.case r3 by simp
  show ?thesis using s1 s2 w1 w2 w3 w4 w5 by simp
qed

text \<open>
  The claim as stated fails on a transcript with two groups of braces. In
  \<open>{"companyName":"A"} \<close>\<^emph>\<open>label\<close>\<open>:B {"x":1}\<close> the first brace-delimited span is
  \<open>{"companyName":"A"}\<close> and a parser that reads it gives an object, but the parser of
  the source hands the whole text, from the first opening brace to the last closing
  brace, to \<open>JSON.parse\<close>, which throws on it, and the result is the record of the text
  fallback, with the company name \<open>B {"x":1}\<close>.
\<close>

theorem first_span_parses_but_fallback:
  "first_brace_span [123, 34, 99, 111, 109, 112, 97, 110, 121, 78, 97, 109, 101, 34, 58, 34, 65, 34, 125, 32, 20225, 19994, 21517, 31216, 65306, 66, 32, 123, 34, 120, 34, 58, 49, 125] = Some [123, 34, 99, 111, 109, 112, 97, 110, 121, 78, 97, 109, 101, 34, 58, 34, 65, 34, 125]
   \<and> outer_brace_span [123, 34, 99, 111, 109, 112, 97, 110, 121, 78, 97, 109, 101, 34, 58, 34, 65, 34, 125, 32, 20225, 19994, 21517, 31216, 65306, 66, 32, 123, 34, 120, 34, 58, 49, 125] = Some [123, 34, 99, 111, 109, 112, 97, 110, 121, 78, 97, 109, 101, 34, 58, 34, 65, 34, 125, 32, 20225, 19994, 21517, 31216, 65306, 66, 32, 123, 34, 120, 34, 58, 49, 125]
   \<and> parseBusinessInfo (\<lambda>s. if s = [123, 34, 99, 111, 109, 112, 97, 110, 121, 78, 97, 109, 101, 34, 58, 34, 65, 34, 125] then Some (7 :: nat) else None) [123, 34, 99, 111, 109, 112, 97, 110, 121, 78, 97, 109, 101, 34, 58, 34, 65, 34, 125, 32, 20225, 19994, 21517, 31216, 65306, 66, 32, 123, 34, 120, 34, 58, 49, 125]
       = FromText (parseBusinessInfoFromText [123, 34, 99, 111, 109, 112, 97, 110, 121, 78, 97, 109, 101, 34, 58, 34, 65, 34, 125, 32, 20225, 19994, 21517, 31216, 65306, 66, 32, 123, 34, 120, 34, 58, 49, 125])
   \<and> parseBusinessInfo (\<lambda>s. if s = [123, 34, 99, 111, 109, 112, 97, 110, 121, 78, 97, 109, 101, 34, 58, 34, 65, 34, 125] then Some (7 :: nat) else None) [123, 34, 99, 111, 109, 112, 97, 110, 121, 78, 97, 109, 101, 34, 58, 34, 65, 34, 125, 32, 20225, 19994, 21517, 31216, 65306, 66, 32, 123, 34, 120, 34, 58, 49, 125]
       \<noteq> FromJson 7
   \<and> parseBusinessInfoFromText [123, 34, 99, 111, 109, 112, 97, 110, 121, 78, 97, 109, 101, 34, 58, 34, 65, 34, 125, 32, 20225, 19994, 21517, 31216, 65306, 66, 32, 123, 34, 120, 34, 58, 49, 125] ''companyName'' = Some [66, 32, 123, 34, 120, 34, 58, 49, 125]"
proof -
  let ?jp = "\<lambda>s. if s = [123, 34, 99, 111, 109, 112, 97, 110, 121, 78, 97, 109, 101, 34, 58, 34, 65, 34, 125] then Some (7 :: nat) else None"
  let ?t = "[123, 34, 99, 111, 109, 112, 97, 110, 121, 78, 97, 109, 101, 34, 58, 34, 65, 34, 125, 32, 20225, 19994, 21517, 31216, 65306, 66, 32, 123, 34, 120, 34, 58, 49, 125]"
  have f: "first_brace_span ?t = Some [123, 34, 99, 111, 109, 112, 97, 110, 121, 78, 97, 109, 101, 34, 58, 34, 65, 34, 125]"
    by (simp add: first_brace_span_def)
  have sp: "outer_brace_span ?t = Some ?t"
    by (simp add: outer_brace_span_def)
  have "map_option (\<lambda>(pre, m, rest, c). m) (rx_search brace_rx [] ?t) = Some ?t"
    unfolding search_brace by (rule sp)
  then obtain pre rest c where m: "rx_search brace_rx [] ?t = Some (pre, ?t, rest, c)"
    by (cases "rx_search brace_rx [] ?t") auto
  have p: "parseBusinessInfo ?jp ?t = FromText (parseBusinessInfoFromText ?t)"
    unfolding parseBusinessInfo_def m by simp
  have k: "map_of business_patterns ''companyName'' = Some companyName_rx"
    by (simp add: business_patterns_def)
  have r: "rx_search companyName_rx [] ?t \<noteq> None
      \<and> trim (cap_text (snd (snd (snd (the (rx_search companyName_rx [] ?t))))) 1) = [66, 32, 123, 34, 120, 34, 58, 49, 125]"
    by (simp add: companyName_rx_def rest_of_line_def rx_eval trim_def)
  obtain pre1 m1 rest1 c1 where f1: "rx_search companyName_rx [] ?t = Some (pre1, m1, rest1, c1)"
    using r by (cases "rx_search companyName_rx [] ?t") auto
  have n: "parseBusinessInfoFromText ?t ''companyName'' = Some [66, 32, 123, 34, 120, 34, 58, 49, 125]"
    unfolding parseBusinessInfoFromText_key[of ?t "''companyName''"] k option.case f1 prod.case
    using r f1 by simp
  show ?thesis
    using f sp p n by simp
qed
section \<open>Properties of the table-cell pass\<close>















lemma blank_fill_refl: "blank_fill v xs xs"
  by (induction xs) (auto intro: blank_fill.intros)


















end
